(* ===== verification/Prelude.thy ===== *)
theory Prelude
  imports Main
begin

text \<open>
  Shared vocabulary of the HideMieterPlus development: the names of the model's
  basic types, the collection of rewrite rules that the component theories
  extend, and generic facts about \<open>find\<close>, \<open>filter\<close> and lists that the
  DOM queries of the script reduce to.
\<close>

named_theorems dom_simps \<open>rewrite rules that push DOM updates through DOM queries\<close>

type_synonym eid = nat
  \<comment> \<open>identity of a page element: the JavaScript object reference\<close>
type_synonym class_name = string
type_synonym attr_name = string

subsection \<open>Searching lists\<close>

lemma find_map_eq:
  "find P (map f xs) = map_option f (find (P \<circ> f) xs)"
  by (induction xs) auto

lemma find_not_None_iff:
  "find P xs \<noteq> None \<longleftrightarrow> (\<exists>x \<in> set xs. P x)"
  by (auto simp: find_None_iff)

lemma find_Some_in_set:
  "find P xs = Some x \<Longrightarrow> x \<in> set xs \<and> P x"
  by (induction xs) (auto split: if_splits)

lemma find_cong_set:
  "(\<And>x. x \<in> set xs \<Longrightarrow> P x = Q x) \<Longrightarrow> find P xs = find Q xs"
  by (induction xs) auto

lemma find_key_distinct:
  assumes "distinct (map f xs)" and "x \<in> set xs"
  shows "find (\<lambda>y. f y = f x) xs = Some x"
  using assms
proof (induction xs)
  case Nil
  then show ?case by simp
next
  case (Cons y ys)
  show ?case
  proof (cases "y = x")
    case True
    then show ?thesis by simp
  next
    case False
    with Cons.prems have "x \<in> set ys" and "f y \<noteq> f x"
      by auto
    with Cons show ?thesis by simp
  qed
qed

lemma filter_cong_set:
  "(\<And>x. x \<in> set xs \<Longrightarrow> P x = Q x) \<Longrightarrow> filter P xs = filter Q xs"
  by (rule filter_cong) auto

lemma map_the_filter_not_None:
  "map the (filter (\<lambda>x. x \<noteq> None) (map f xs)) = List.map_filter f xs"
  by (induction xs) (auto simp: List.map_filter_def)

end
