(* ===== verification/Dom.thy ===== *)
theory Dom
  imports Prelude
begin

text \<open>
  The host page: the part of the browser's DOM that the userscript reads and
  writes. This is not code of the repository; it is the environment the script
  runs in, modelled from the DOM standard as far as the script uses it. A page
  is a tree of elements in document order; an element has an identity (the
  JavaScript object reference), a tag, attributes, a class list and an inline
  \<open>style.display\<close>. Queries are \<open>getElementsByClassName\<close> and
  \<open>querySelector\<close> (first match in document order; on an element it searches the
  descendants only), \<open>getAttribute\<close>, \<open>classList.contains\<close>,
  \<open>Element.matches\<close> and \<open>Element.closest\<close>; updates are
  \<open>classList.add\<close> and assignment to \<open>style.display\<close>, both applied to
  the element with a given identity. A CSS selector is modelled by the
  predicate on elements it denotes.
\<close>

record elem =
  ident :: eid
  tag :: string
  attrs :: "(attr_name \<times> string) list"
  classList :: "class_name list"
  display :: "string option"

datatype node = Node (label: elem) (kids: "node list")

subsection \<open>Document order and queries\<close>

fun nodes :: "node \<Rightarrow> node list" where
  "nodes (Node e cs) = Node e cs # concat (map nodes cs)"

definition elems :: "node \<Rightarrow> elem list" where
  "elems t = map label (nodes t)"

definition descendants :: "node \<Rightarrow> elem list" where
  "descendants n = tl (elems n)"

definition getAttribute :: "elem \<Rightarrow> attr_name \<Rightarrow> string option" where
  "getAttribute e a = map_of (attrs e) a"

definition has_class :: "class_name \<Rightarrow> elem \<Rightarrow> bool" where
  "has_class c e \<longleftrightarrow> c \<in> set (classList e)"

definition getElementsByClassName :: "node \<Rightarrow> class_name \<Rightarrow> eid list" where
  "getElementsByClassName t c = map ident (filter (has_class c) (elems t))"

definition querySelector :: "node \<Rightarrow> (elem \<Rightarrow> bool) \<Rightarrow> elem option" where
  "querySelector t sel = find sel (elems t)"

definition querySelector_in :: "node \<Rightarrow> (elem \<Rightarrow> bool) \<Rightarrow> elem option" where
  "querySelector_in n sel = find sel (descendants n)"

definition get_node :: "node \<Rightarrow> eid \<Rightarrow> node option" where
  "get_node t i = find (\<lambda>n. ident (label n) = i) (nodes t)"

definition attr_starts_with :: "attr_name \<Rightarrow> string \<Rightarrow> elem \<Rightarrow> bool" where
  "attr_starts_with a p e =
     (case getAttribute e a of None \<Rightarrow> False | Some v \<Rightarrow> take (length p) v = p)"

fun first_Some :: "'a option list \<Rightarrow> 'a option" where
  "first_Some [] = None"
| "first_Some (Some x # _) = Some x"
| "first_Some (None # xs) = first_Some xs"

fun path_to :: "eid \<Rightarrow> node \<Rightarrow> elem list option" where
  "path_to i (Node e cs) =
     (if ident e = i then Some [e]
      else map_option (Cons e) (first_Some (map (path_to i) cs)))"

definition closest :: "node \<Rightarrow> eid \<Rightarrow> (elem \<Rightarrow> bool) \<Rightarrow> elem option" where
  "closest t i sel = (case path_to i t of None \<Rightarrow> None | Some p \<Rightarrow> find sel (rev p))"

definition wf_dom :: "node \<Rightarrow> bool" where
  "wf_dom t \<longleftrightarrow> distinct (map ident (elems t))"

subsection \<open>Updates\<close>

fun map_elems :: "(elem \<Rightarrow> elem) \<Rightarrow> node \<Rightarrow> node" where
  "map_elems g (Node e cs) = Node (g e) (map (map_elems g) cs)"

definition upd_elem :: "eid \<Rightarrow> (elem \<Rightarrow> elem) \<Rightarrow> node \<Rightarrow> node" where
  "upd_elem i f = map_elems (\<lambda>e. if ident e = i then f e else e)"

definition classList_add :: "class_name \<Rightarrow> elem \<Rightarrow> elem" where
  "classList_add c e =
     (if c \<in> set (classList e) then e else e\<lparr>classList := classList e @ [c]\<rparr>)"

definition set_display :: "string \<Rightarrow> elem \<Rightarrow> elem" where
  "set_display v e = e\<lparr>display := Some v\<rparr>"

definition keeps_ident :: "(elem \<Rightarrow> elem) \<Rightarrow> bool" where
  "keeps_ident g \<longleftrightarrow> (\<forall>e. ident (g e) = ident e)"

definition keeps_class :: "class_name \<Rightarrow> (elem \<Rightarrow> elem) \<Rightarrow> bool" where
  "keeps_class c g \<longleftrightarrow> (\<forall>e. has_class c (g e) = has_class c e)"

subsection \<open>Updates commute with queries\<close>

lemma label_map_elems [simp, dom_simps]: "label (map_elems g n) = g (label n)"
  by (cases n) simp

lemma nodes_map_elems [dom_simps]:
  "nodes (map_elems g t) = map (map_elems g) (nodes t)"
  by (induction t) (simp add: map_concat cong: map_cong)

lemma elems_map_elems [simp, dom_simps]: "elems (map_elems g t) = map g (elems t)"
  by (simp add: elems_def nodes_map_elems)

lemma descendants_map_elems [simp, dom_simps]:
  "descendants (map_elems g n) = map g (descendants n)"
  by (simp add: descendants_def map_tl)

lemma map_elems_comp [simp]: "map_elems g (map_elems h t) = map_elems (g \<circ> h) t"
  by (induction t) simp

lemma map_elems_cong_elems:
  "(\<And>e. e \<in> set (elems t) \<Longrightarrow> g e = h e) \<Longrightarrow> map_elems g t = map_elems h t"
proof (induction t)
  case (Node e cs)
  have sub: "\<And>c. c \<in> set cs \<Longrightarrow> set (elems c) \<subseteq> set (elems (Node e cs))"
    by (auto simp: elems_def)
  have "map (map_elems g) cs = map (map_elems h) cs"
  proof (rule map_cong [OF refl])
    fix c
    assume c: "c \<in> set cs"
    show "map_elems g c = map_elems h c"
      using Node.prems sub [OF c] by (intro Node.IH [OF c]) blast
  qed
  moreover have "g e = h e"
    using Node.prems by (simp add: elems_def)
  ultimately show ?case by simp
qed

lemma map_elems_id [simp]: "map_elems id t = t" "map_elems (\<lambda>x. x) t = t"
  by (induction t) (simp_all add: map_idI)

lemma map_elems_ident:
  "(\<And>e. e \<in> set (elems t) \<Longrightarrow> g e = e) \<Longrightarrow> map_elems g t = t"
proof -
  assume "\<And>e. e \<in> set (elems t) \<Longrightarrow> g e = e"
  then have "map_elems g t = map_elems id t"
    by (intro map_elems_cong_elems) simp
  then show ?thesis by (simp add: map_elems_id)
qed

lemma keeps_ident_ident [simp]: "keeps_ident g \<Longrightarrow> ident (g e) = ident e"
  by (simp add: keeps_ident_def)

lemma keeps_class_has_class [simp]: "keeps_class c g \<Longrightarrow> has_class c (g e) = has_class c e"
  by (simp add: keeps_class_def)

lemma get_node_map_elems [dom_simps]:
  "keeps_ident g \<Longrightarrow> get_node (map_elems g t) i = map_option (map_elems g) (get_node t i)"
  by (simp add: get_node_def nodes_map_elems find_map_eq comp_def)

lemma getElementsByClassName_map_elems [dom_simps]:
  "keeps_ident g \<Longrightarrow> keeps_class c g \<Longrightarrow>
   getElementsByClassName (map_elems g t) c = getElementsByClassName t c"
  by (simp add: getElementsByClassName_def filter_map comp_def)

lemma querySelector_map_elems [dom_simps]:
  "(\<And>e. sel (g e) = sel e) \<Longrightarrow>
   querySelector (map_elems g t) sel = map_option g (querySelector t sel)"
  by (simp add: querySelector_def find_map_eq comp_def)

lemma querySelector_in_map_elems [dom_simps]:
  "(\<And>e. sel (g e) = sel e) \<Longrightarrow>
   querySelector_in (map_elems g n) sel = map_option g (querySelector_in n sel)"
  by (simp add: querySelector_in_def find_map_eq comp_def)

lemma wf_dom_map_elems [dom_simps]:
  "keeps_ident g \<Longrightarrow> wf_dom (map_elems g t) = wf_dom t"
  by (simp add: wf_dom_def comp_def)

subsection \<open>Looking elements up by identity\<close>

lemma get_node_Some:
  "get_node t i = Some n \<Longrightarrow> n \<in> set (nodes t) \<and> ident (label n) = i"
  unfolding get_node_def by (rule find_Some_in_set)

lemma get_node_wf:
  assumes "wf_dom t" and "n \<in> set (nodes t)"
  shows "get_node t (ident (label n)) = Some n"
proof -
  have "distinct (map (ident \<circ> label) (nodes t))"
    using assms(1) by (simp add: wf_dom_def elems_def)
  from find_key_distinct [OF this assms(2)] show ?thesis
    by (simp add: get_node_def)
qed

lemma in_getElementsByClassName:
  "i \<in> set (getElementsByClassName t c) \<longleftrightarrow>
   (\<exists>n \<in> set (nodes t). ident (label n) = i \<and> has_class c (label n))"
  by (auto simp: getElementsByClassName_def elems_def)

lemma attr_starts_with_iff:
  "attr_starts_with a p e \<longleftrightarrow> (\<exists>w. getAttribute e a = Some (p @ w))"
  by (auto simp: attr_starts_with_def split: option.splits)
    (metis append_take_drop_id)

lemma querySelector_in_iff:
  "querySelector_in n sel \<noteq> None \<longleftrightarrow> (\<exists>e \<in> set (descendants n). sel e)"
  unfolding querySelector_in_def by (rule find_not_None_iff)

end
