(* ===== verification/Tabs.thy ===== *)
theory Tabs
  imports Dom
begin

text \<open>
  The view-mode tabs of \<open>CardManager\<close> (src/js/HideMieterPlus.js, lines 4--89
  and 163--165): the state the class keeps (its \<open>tabsCache\<close> field, together
  with the page and the console it works on), the three tab markers, the
  derivation of a tab's mode from its \<open>data-testid\<close>, the cached scan
  \<open>getAllMapToggleTabs\<close>, the lookup \<open>findTabByMode\<close> and the cache reset
  \<open>refreshTabsCache\<close>. Every operation takes the state and returns its result
  with the new state. The state is a record scheme so that the event loop of
  \<open>Events\<close> can extend it with its own fields.
\<close>

text \<open>Console output of the script (the messages at lines 20, 60, 85, 118, 133, 155).\<close>

datatype log_msg =
    ErrorInit
  | WarnTabMissing string
  | WarnModeMissing string
  | LogFound nat nat
  | LogNoCards
  | LogHidden nat nat

record tab =
  element :: eid
  mode :: string
  isSelected :: bool

record cm_state =
  doc :: node
  tabsCache :: "tab list option"
  console :: "log_msg list"

definition emit :: "log_msg \<Rightarrow> 'a cm_state_scheme \<Rightarrow> 'a cm_state_scheme" where
  "emit m s = s\<lparr>console := console s @ [m]\<rparr>"

subsection \<open>Tab discovery\<close>

definition testIds :: "string list" where
  "testIds = [''mapToggleListMode'', ''mapToggleHybridViewMode'', ''mapToggleClassicMapMode'']"

text \<open>\<open>s.replace(/^p/, "")\<close> and \<open>s.replace(/p$/, "")\<close> for a literal \<open>p\<close>.\<close>

definition replace_prefix :: "string \<Rightarrow> string \<Rightarrow> string" where
  "replace_prefix p s = (if take (length p) s = p then drop (length p) s else s)"

definition replace_suffix :: "string \<Rightarrow> string \<Rightarrow> string" where
  "replace_suffix p s =
     (if drop (length s - length p) s = p then take (length s - length p) s else s)"

definition mode_of_testId :: "string \<Rightarrow> string" where
  "mode_of_testId tid = replace_suffix ''Mode'' (replace_prefix ''mapToggle'' tid)"

definition has_testid :: "string \<Rightarrow> elem \<Rightarrow> bool" where
  "has_testid tid e \<longleftrightarrow> getAttribute e ''data-testid'' = Some tid"

definition tab_of_testId :: "node \<Rightarrow> string \<Rightarrow> tab option" where
  "tab_of_testId d tid =
     (case querySelector d (has_testid tid) of
        None \<Rightarrow> None
      | Some t \<Rightarrow> Some \<lparr>element = ident t, mode = mode_of_testId tid,
                       isSelected = (getAttribute t ''aria-selected'' = Some ''true'')\<rparr>)"

definition scan_tabs :: "node \<Rightarrow> tab list" where
  "scan_tabs d = map the (filter (\<lambda>t. t \<noteq> None) (map (tab_of_testId d) testIds))"

definition missing_tab_warnings :: "node \<Rightarrow> log_msg list" where
  "missing_tab_warnings d =
     map WarnTabMissing (filter (\<lambda>tid. tab_of_testId d tid = None) testIds)"

definition getAllMapToggleTabs :: "'a cm_state_scheme \<Rightarrow> tab list \<times> 'a cm_state_scheme" where
  "getAllMapToggleTabs s =
     (case tabsCache s of
        Some ts \<Rightarrow> (ts, s)
      | None \<Rightarrow>
          (let ts = scan_tabs (doc s)
           in (ts, s\<lparr>tabsCache := Some ts,
                     console := console s @ missing_tab_warnings (doc s)\<rparr>)))"

definition findTabByMode :: "string \<Rightarrow> 'a cm_state_scheme \<Rightarrow> tab option \<times> 'a cm_state_scheme" where
  "findTabByMode m s =
     (let (allTabs, s1) = getAllMapToggleTabs s;
          foundTab = find (\<lambda>t. mode t = m) allTabs
      in (foundTab, if foundTab = None then emit (WarnModeMissing m) s1 else s1))"

definition refreshTabsCache :: "'a cm_state_scheme \<Rightarrow> 'a cm_state_scheme" where
  "refreshTabsCache s = s\<lparr>tabsCache := None\<rparr>"

subsection \<open>Mode names\<close>

lemma replace_prefix_append [simp]: "replace_prefix p (p @ s) = s"
  by (simp add: replace_prefix_def)

lemma replace_suffix_append [simp]: "replace_suffix p (s @ p) = s"
  by (simp add: replace_suffix_def)

lemma modes_of_testIds:
  "map mode_of_testId testIds = [''List'', ''HybridView'', ''ClassicMap'']"
proof -
  have "mode_of_testId (''mapToggle'' @ m @ ''Mode'') = m" for m
    by (simp only: mode_of_testId_def replace_prefix_append replace_suffix_append)
  from this [of "''List''"] this [of "''HybridView''"] this [of "''ClassicMap''"]
  show ?thesis by (simp add: testIds_def)
qed

lemma mode_tab_of_testId:
  "tab_of_testId d tid = Some t \<Longrightarrow>
   mode t = mode_of_testId tid \<and> element t \<in> ident ` set (elems d) \<and>
   isSelected t = (\<exists>e. querySelector d (has_testid tid) = Some e \<and>
                        getAttribute e ''aria-selected'' = Some ''true'')"
  by (auto simp: tab_of_testId_def querySelector_def dest: find_Some_in_set
           split: option.splits)

subsection \<open>The scan and the cache\<close>

lemma scan_tabs_eq: "scan_tabs d = List.map_filter (tab_of_testId d) testIds"
  by (simp add: scan_tabs_def List.map_filter_def comp_def filter_map)

lemma find_scan_tabs_List:
  "find (\<lambda>t. mode t = ''List'') (scan_tabs d) = tab_of_testId d ''mapToggleListMode''"
proof -
  have m: "map mode_of_testId testIds = [''List'', ''HybridView'', ''ClassicMap'']"
    by (rule modes_of_testIds)
  then have hv: "mode_of_testId ''mapToggleHybridViewMode'' = ''HybridView''"
    and cm: "mode_of_testId ''mapToggleClassicMapMode'' = ''ClassicMap''"
    and li: "mode_of_testId ''mapToggleListMode'' = ''List''"
    by (simp_all add: testIds_def)
  show ?thesis
    by (auto simp: scan_tabs_eq testIds_def hv cm li dest!: mode_tab_of_testId
             split: option.splits)
qed

lemma getAllMapToggleTabs_cached:
  "tabsCache s = Some ts \<Longrightarrow> getAllMapToggleTabs s = (ts, s)"
  by (simp add: getAllMapToggleTabs_def)

lemma getAllMapToggleTabs_fresh:
  "tabsCache s = None \<Longrightarrow>
   getAllMapToggleTabs s =
     (scan_tabs (doc s), s\<lparr>tabsCache := Some (scan_tabs (doc s)),
                          console := console s @ missing_tab_warnings (doc s)\<rparr>)"
  by (simp add: getAllMapToggleTabs_def Let_def)

lemma getAllMapToggleTabs_doc [simp]: "doc (snd (getAllMapToggleTabs s)) = doc s"
  by (simp add: getAllMapToggleTabs_def Let_def split: option.splits)

lemma emit_fields [simp]:
  "doc (emit m s) = doc s" "tabsCache (emit m s) = tabsCache s"
  "console (emit m s) = console s @ [m]"
  by (simp_all add: emit_def)

lemma getAllMapToggleTabs_cache:
  "tabsCache (snd (getAllMapToggleTabs s)) = Some (fst (getAllMapToggleTabs s))"
  by (simp add: getAllMapToggleTabs_def Let_def split: option.splits)

lemma findTabByMode_eq:
  "findTabByMode m s =
     (find (\<lambda>t. mode t = m) (fst (getAllMapToggleTabs s)),
      if find (\<lambda>t. mode t = m) (fst (getAllMapToggleTabs s)) = None
      then emit (WarnModeMissing m) (snd (getAllMapToggleTabs s))
      else snd (getAllMapToggleTabs s))"
  by (simp add: findTabByMode_def split_def Let_def)

lemma findTabByMode_cache [simp]:
  "tabsCache (snd (findTabByMode m s)) = Some (fst (getAllMapToggleTabs s))"
  by (simp add: findTabByMode_eq getAllMapToggleTabs_cache)

lemma getAllMapToggleTabs_doc_eq:
  "getAllMapToggleTabs s = (ts, s') \<Longrightarrow> doc s' = doc s"
  by (metis getAllMapToggleTabs_doc snd_conv)

lemma findTabByMode_doc [simp]: "doc (snd (findTabByMode m s)) = doc s"
  by (auto simp: findTabByMode_def emit_def Let_def dest: getAllMapToggleTabs_doc_eq
           split: prod.splits)

subsection \<open>Properties of the tab scan\<close>

text \<open>
  C9. After the cache is reset, \<open>findTabByMode "List"\<close> returns the tab built
  from the first element of the page, in document order, whose
  \<open>data-testid\<close> is \<open>mapToggleListMode\<close>, with that element's current
  \<open>aria-selected\<close>; and none when the page has no such element.
\<close>

theorem findTabByMode_List_fresh:
  "fst (findTabByMode ''List'' (refreshTabsCache s)) = tab_of_testId (doc s) ''mapToggleListMode''"
  by (simp add: findTabByMode_eq refreshTabsCache_def getAllMapToggleTabs_fresh find_scan_tabs_List)

text \<open>
  C11. A scan yields at most one tab per mode, only the modes List, HybridView
  and ClassicMap, and only tabs whose element is on the page.
\<close>

theorem scan_tabs_wf:
  "distinct (map mode (scan_tabs d)) \<and>
   set (map mode (scan_tabs d)) \<subseteq> {''List'', ''HybridView'', ''ClassicMap''} \<and>
   set (map element (scan_tabs d)) \<subseteq> ident ` set (elems d)"
proof -
  have li: "mode_of_testId ''mapToggleListMode'' = ''List''"
    and hv: "mode_of_testId ''mapToggleHybridViewMode'' = ''HybridView''"
    and cm: "mode_of_testId ''mapToggleClassicMapMode'' = ''ClassicMap''"
    using modes_of_testIds by (simp_all add: testIds_def)
  show ?thesis
    by (auto simp: scan_tabs_eq testIds_def li hv cm dest!: mode_tab_of_testId
             split: option.splits)
qed

end
