(* ===== verification/Cards.thy ===== *)
theory Cards
  imports Tabs
begin

text \<open>
  Card discovery and hiding in \<open>CardManager\<close> (src/js/HideMieterPlus.js, lines
  5--37 and 96--174): \<open>hasChildWithClass\<close>, \<open>getCards\<close>, the loop of
  \<open>hideCards\<close> as the recursive \<open>hide_loop\<close>, \<open>hideCards\<close> itself,
  \<open>reapplyFilters\<close>, \<open>init\<close> and the constructor. The card list holds element
  identities; every read of a card in the loop looks the element up in the
  current page, as the live JavaScript reference does. The lemmas show what the
  loop computes (a batch update of the page, \<open>hide_loop_eq\<close>), refine
  \<open>hideCards\<close> to a declarative filter over the page (\<open>filter_spec\<close>) and
  derive the card-level guarantees and idempotence from it.
\<close>

definition hasChildWithClass :: "node option \<Rightarrow> class_name \<Rightarrow> bool" where
  "hasChildWithClass parentElement className =
     (case parentElement of
        None \<Rightarrow> False
      | Some p \<Rightarrow> querySelector_in p (has_class className) \<noteq> None)"

definition getCards :: "'a cm_state_scheme \<Rightarrow> eid list \<times> 'a cm_state_scheme" where
  "getCards s =
     (let (listModeTab, s1) = findTabByMode ''List'' s;
          isListModeActive = (case listModeTab of None \<Rightarrow> False | Some t \<Rightarrow> isSelected t);
          contentCards =
            (if isListModeActive then getElementsByClassName (doc s1) ''result-list__listing''
             else getElementsByClassName (doc s1) ''listing-card'');
          touchpointCards = getElementsByClassName (doc s1) ''touchpoint-card''
      in (contentCards @ touchpointCards,
          emit (LogFound (length contentCards) (length touchpointCards)) s1))"

definition hide_elem :: "elem \<Rightarrow> elem" where
  "hide_elem e = classList_add ''hidden-card'' (set_display ''none'' e)"

definition card_hidden :: "elem \<Rightarrow> bool" where
  "card_hidden e \<longleftrightarrow> display e = Some ''none'' \<and> has_class ''hidden-card'' e"

fun hide_loop :: "eid list \<Rightarrow> nat \<Rightarrow> 'a cm_state_scheme \<Rightarrow> nat \<times> 'a cm_state_scheme" where
  "hide_loop [] hiddenCount s = (hiddenCount, s)"
| "hide_loop (card_id # cards) hiddenCount s =
     (let n = get_node (doc s) card_id;
          hasPaywallClass =
            (hasChildWithClass n ''paywall-label'' \<or> hasChildWithClass n ''plusBooking'');
          hasSponsoredClass =
            (case n of None \<Rightarrow> False | Some c \<Rightarrow> has_class ''touchpoint-card'' (label c))
      in if hasPaywallClass \<or> hasSponsoredClass
         then hide_loop cards (Suc hiddenCount) (s\<lparr>doc := upd_elem card_id hide_elem (doc s)\<rparr>)
         else hide_loop cards hiddenCount s)"

definition hideCards :: "'a cm_state_scheme \<Rightarrow> 'a cm_state_scheme" where
  "hideCards s =
     (let (cards, s1) = getCards s
      in if cards = [] then emit LogNoCards s1
         else (let (hiddenCount, s2) = hide_loop cards 0 s1
               in emit (LogHidden hiddenCount (length cards)) s2))"

text \<open>
  \<open>init\<close> wraps \<open>hideCards\<close> in \<open>try \<dots> catch\<close>. No operation of the
  model raises (every card is an element of the page, every class name is a
  string), so the catch branch that would log \<open>ErrorInit\<close> is dead and
  \<open>init\<close> is \<open>hideCards\<close>.
\<close>

definition init :: "'a cm_state_scheme \<Rightarrow> 'a cm_state_scheme" where
  "init s = hideCards s"

definition CardManager_new :: "'a cm_state_scheme \<Rightarrow> 'a cm_state_scheme" where
  "CardManager_new s = init (s\<lparr>tabsCache := None\<rparr>)"

definition reapplyFilters :: "'a cm_state_scheme \<Rightarrow> 'a cm_state_scheme" where
  "reapplyFilters s = hideCards (refreshTabsCache s)"

subsection \<open>Vocabulary of the specification\<close>

text \<open>
  \<open>to_hide d c\<close> is the test of the loop body on card \<open>c\<close> of page \<open>d\<close>;
  \<open>hide_if S\<close> hides the elements whose identity is in \<open>S\<close>. The
  declarative side: a node is \<open>paywalled\<close> when a descendant carries one of
  the two paywall markers, \<open>sponsored\<close> when it carries the touchpoint class,
  \<open>collected\<close> in a mode when it carries that mode's content class or the
  touchpoint class; \<open>filter_spec\<close> hides exactly the collected nodes that are
  paywalled or sponsored.
\<close>

definition to_hide :: "node \<Rightarrow> eid \<Rightarrow> bool" where
  "to_hide d c =
     (let n = get_node d c
      in (hasChildWithClass n ''paywall-label'' \<or> hasChildWithClass n ''plusBooking'') \<or>
         (case n of None \<Rightarrow> False | Some m \<Rightarrow> has_class ''touchpoint-card'' (label m)))"

definition hide_if :: "eid set \<Rightarrow> elem \<Rightarrow> elem" where
  "hide_if S e = (if ident e \<in> S then hide_elem e else e)"

definition list_active_of :: "tab list \<Rightarrow> bool" where
  "list_active_of ts = (case find (\<lambda>t. mode t = ''List'') ts of None \<Rightarrow> False | Some t \<Rightarrow> isSelected t)"

definition list_mode_active :: "'a cm_state_scheme \<Rightarrow> bool" where
  "list_mode_active s = list_active_of (fst (getAllMapToggleTabs s))"

definition list_tab_selected :: "node \<Rightarrow> bool" where
  "list_tab_selected d =
     (case querySelector d (has_testid ''mapToggleListMode'') of
        None \<Rightarrow> False
      | Some e \<Rightarrow> getAttribute e ''aria-selected'' = Some ''true'')"

definition content_class :: "bool \<Rightarrow> class_name" where
  "content_class active = (if active then ''result-list__listing'' else ''listing-card'')"

definition collect_cards :: "bool \<Rightarrow> node \<Rightarrow> eid list" where
  "collect_cards active d =
     getElementsByClassName d (content_class active) @ getElementsByClassName d ''touchpoint-card''"

definition paywalled :: "node \<Rightarrow> bool" where
  "paywalled n \<longleftrightarrow>
     (\<exists>e \<in> set (descendants n). has_class ''paywall-label'' e \<or> has_class ''plusBooking'' e)"

definition sponsored :: "node \<Rightarrow> bool" where
  "sponsored n \<longleftrightarrow> has_class ''touchpoint-card'' (label n)"

definition collected :: "bool \<Rightarrow> node \<Rightarrow> bool" where
  "collected active n \<longleftrightarrow>
     has_class (content_class active) (label n) \<or> has_class ''touchpoint-card'' (label n)"

definition hide_targets :: "bool \<Rightarrow> node \<Rightarrow> eid list" where
  "hide_targets active d =
     map (ident \<circ> label) (filter (\<lambda>n. collected active n \<and> (paywalled n \<or> sponsored n)) (nodes d))"

definition filter_spec :: "bool \<Rightarrow> node \<Rightarrow> node" where
  "filter_spec active d = map_elems (hide_if (set (hide_targets active d))) d"

definition refilter :: "node \<Rightarrow> node" where
  "refilter d =
     map_elems (hide_if (set (filter (to_hide d) (collect_cards (list_tab_selected d) d)))) d"

subsection \<open>Hiding one element\<close>

lemma has_class_hide_elem [simp]:
  "has_class c (hide_elem e) \<longleftrightarrow> c = ''hidden-card'' \<or> has_class c e"
  by (auto simp: has_class_def hide_elem_def classList_add_def set_display_def)

lemma hide_elem_fields [simp]:
  "ident (hide_elem e) = ident e" "attrs (hide_elem e) = attrs e" "tag (hide_elem e) = tag e"
  by (simp_all add: hide_elem_def classList_add_def set_display_def)

lemma hide_elem_idem [simp]: "hide_elem (hide_elem e) = hide_elem e"
  by (simp add: hide_elem_def classList_add_def set_display_def)

lemma card_hidden_hide_elem [simp]: "card_hidden (hide_elem e)"
  by (simp add: card_hidden_def hide_elem_def classList_add_def set_display_def has_class_def)

lemma card_hidden_hide_if: "card_hidden e \<Longrightarrow> card_hidden (hide_if S e)"
  by (simp add: hide_if_def)

lemma keeps_ident_hide_if [simp]: "keeps_ident (hide_if S)"
  by (simp add: keeps_ident_def hide_if_def)

lemma keeps_class_hide_if [simp]: "c \<noteq> ''hidden-card'' \<Longrightarrow> keeps_class c (hide_if S)"
  by (simp add: keeps_class_def hide_if_def)

lemma hide_if_fields [simp]:
  "ident (hide_if S e) = ident e" "attrs (hide_if S e) = attrs e"
  by (simp_all add: hide_if_def)

lemma hide_if_comp [simp]: "hide_if S \<circ> hide_if T = hide_if (S \<union> T)"
  by (auto simp: hide_if_def)

lemma hide_if_empty [simp]: "hide_if {} = id"
  by (auto simp: hide_if_def)

lemma upd_elem_hide_elem: "upd_elem i hide_elem = map_elems (hide_if {i})"
  unfolding upd_elem_def by (rule arg_cong [where f = map_elems]) (simp add: fun_eq_iff hide_if_def)

lemma content_class_not_hidden [simp]: "content_class a \<noteq> ''hidden-card''"
  by (simp add: content_class_def)

lemma keeps_content_class_hide_if [simp]: "keeps_class (content_class a) (hide_if S)"
  by simp

subsection \<open>The loop test is unaffected by hiding\<close>

lemma hasChildWithClass_map_elems:
  "keeps_ident g \<Longrightarrow> keeps_class c g \<Longrightarrow>
   hasChildWithClass (map_option (map_elems g) n) c = hasChildWithClass n c"
  by (simp add: hasChildWithClass_def querySelector_in_map_elems split: option.splits)

lemma to_hide_map_elems:
  assumes "keeps_ident g" "keeps_class ''paywall-label'' g" "keeps_class ''plusBooking'' g"
    "keeps_class ''touchpoint-card'' g"
  shows "to_hide (map_elems g d) = to_hide d"
proof
  fix c
  show "to_hide (map_elems g d) c = to_hide d c"
    using assms
    by (simp add: to_hide_def Let_def get_node_map_elems hasChildWithClass_map_elems
             split: option.splits)
qed

lemma to_hide_hide_if [simp]: "to_hide (map_elems (hide_if S) d) = to_hide d"
  by (rule to_hide_map_elems) simp_all

lemma hasChildWithClass_Some:
  "hasChildWithClass (Some n) c \<longleftrightarrow> (\<exists>e \<in> set (descendants n). has_class c e)"
  by (simp only: hasChildWithClass_def option.simps querySelector_in_iff)

lemma to_hide_node:
  "get_node d c = Some n \<Longrightarrow> to_hide d c \<longleftrightarrow> paywalled n \<or> sponsored n"
  by (auto simp: to_hide_def Let_def hasChildWithClass_Some paywalled_def sponsored_def)

subsection \<open>The loop is a batch update\<close>

text \<open>
  Equivalence of the sequential loop with a single update of the page: the
  cards that pass the test, evaluated on the page as it was before the loop,
  are hidden together, and the counter grows by their number (repetitions in
  the card list included). Earlier iterations cannot change the test of later
  ones, because hiding adds only the class \<open>hidden-card\<close>.
\<close>

lemma hide_loop_eq:
  "hide_loop cs k s =
     (k + length (filter (to_hide (doc s)) cs),
      s\<lparr>doc := map_elems (hide_if (set (filter (to_hide (doc s)) cs))) (doc s)\<rparr>)"
proof (induction cs arbitrary: k s)
  case Nil
  then show ?case by (simp add: map_elems_id)
next
  case (Cons c cs)
  show ?case
  proof (cases "to_hide (doc s) c")
    case True
    then have step: "hide_loop (c # cs) k s =
        hide_loop cs (Suc k) (s\<lparr>doc := map_elems (hide_if {c}) (doc s)\<rparr>)"
      by (simp add: to_hide_def Let_def upd_elem_hide_elem)
    show ?thesis
      unfolding step Cons.IH using True by (simp add: Un_commute)
  next
    case False
    then have "hide_loop (c # cs) k s = hide_loop cs k s"
      by (simp add: to_hide_def Let_def)
    then show ?thesis using False Cons.IH by simp
  qed
qed

subsection \<open>What getCards and hideCards compute\<close>

lemma getCards_fst: "fst (getCards s) = collect_cards (list_mode_active s) (doc s)"
  by (simp add: getCards_def findTabByMode_eq split_def Let_def collect_cards_def
                content_class_def list_mode_active_def list_active_of_def
           split: option.splits)

lemma getCards_doc [simp]: "doc (snd (getCards s)) = doc s"
  by (simp add: getCards_def split_def Let_def)

lemma getCards_cache [simp]:
  "tabsCache (snd (getCards s)) = Some (fst (getAllMapToggleTabs s))"
  by (simp add: getCards_def split_def Let_def)

lemma hideCards_doc:
  "doc (hideCards s) =
     map_elems (hide_if (set (filter (to_hide (doc s)) (collect_cards (list_mode_active s) (doc s)))))
       (doc s)"
  by (simp add: hideCards_def split_def Let_def hide_loop_eq getCards_fst)

lemma hideCards_frame:
  "hideCards s =
     s\<lparr>doc := doc (hideCards s), tabsCache := tabsCache (hideCards s),
       console := console (hideCards s)\<rparr>"
  by (simp add: hideCards_def getCards_def findTabByMode_def getAllMapToggleTabs_def emit_def
                hide_loop_eq split_def Let_def split: option.splits)

lemma hideCards_cache:
  "tabsCache (hideCards s) = Some (fst (getAllMapToggleTabs s))"
  by (simp add: hideCards_def split_def Let_def hide_loop_eq)

lemma list_mode_active_cached:
  "tabsCache s = Some ts \<Longrightarrow> list_mode_active s = list_active_of ts"
  by (simp add: list_mode_active_def getAllMapToggleTabs_cached)

lemma list_mode_active_no_cache:
  "tabsCache s = None \<Longrightarrow> list_mode_active s = list_tab_selected (doc s)"
  by (simp add: list_mode_active_def getAllMapToggleTabs_fresh
                list_active_of_def find_scan_tabs_List tab_of_testId_def list_tab_selected_def
           split: option.splits)

lemma collect_cards_hide_if [simp]:
  "collect_cards a (map_elems (hide_if S) d) = collect_cards a d"
  by (simp add: collect_cards_def getElementsByClassName_map_elems)

lemma list_tab_selected_hide_if [simp]:
  "list_tab_selected (map_elems (hide_if S) d) = list_tab_selected d"
  by (simp add: list_tab_selected_def querySelector_map_elems has_testid_def getAttribute_def
           split: option.splits)

lemma reapplyFilters_doc: "doc (reapplyFilters s) = refilter (doc s)"
  by (simp add: reapplyFilters_def hideCards_doc list_mode_active_no_cache refreshTabsCache_def
                refilter_def)

lemma refilter_idem: "refilter (refilter d) = refilter d"
  by (simp add: refilter_def)

subsection \<open>Refinement of hideCards by the declarative filter\<close>

lemma to_hide_wf:
  "wf_dom d \<Longrightarrow> n \<in> set (nodes d) \<Longrightarrow>
   to_hide d (ident (label n)) \<longleftrightarrow> paywalled n \<or> sponsored n"
  by (simp add: get_node_wf to_hide_node)

lemma hide_targets_eq:
  assumes "wf_dom d"
  shows "set (filter (to_hide d) (collect_cards a d)) = set (hide_targets a d)"
  using assms
  by (auto simp: collect_cards_def in_getElementsByClassName hide_targets_def collected_def
                 to_hide_wf)

lemma in_hide_targets:
  "n \<in> set (nodes d) \<Longrightarrow> collected a n \<Longrightarrow> paywalled n \<or> sponsored n \<Longrightarrow>
   ident (label n) \<in> set (hide_targets a d)"
  by (auto simp: hide_targets_def)

lemma hideCards_doc_wf:
  assumes "wf_dom (doc s)"
  shows "doc (hideCards s) =
           map_elems (hide_if (set (hide_targets (list_mode_active s) (doc s)))) (doc s)"
  by (simp only: hideCards_doc hide_targets_eq [OF assms])

lemma scan_tabs_hide_if [simp]: "scan_tabs (map_elems (hide_if S) d) = scan_tabs d"
proof -
  have "tab_of_testId (map_elems (hide_if S) d) = tab_of_testId d"
    by (rule ext) (simp add: tab_of_testId_def querySelector_map_elems has_testid_def
                             getAttribute_def split: option.splits)
  then show ?thesis by (simp add: scan_tabs_def)
qed

lemma getCards_console:
  "console (snd (getCards s)) =
     console (snd (findTabByMode ''List'' s)) @
     [LogFound (length (getElementsByClassName (doc s) (content_class (list_mode_active s))))
               (length (getElementsByClassName (doc s) ''touchpoint-card''))]"
  by (simp add: getCards_def findTabByMode_eq split_def Let_def content_class_def
                list_mode_active_def list_active_of_def split: option.splits)

lemma refilter_wf: "wf_dom d \<Longrightarrow> refilter d = filter_spec (list_tab_selected d) d"
  by (simp only: refilter_def filter_spec_def hide_targets_eq)

lemma hide_targets_collected:
  assumes "wf_dom d" and "e \<in> set (elems d)" and "ident e \<in> set (hide_targets a d)"
  shows "has_class (content_class a) e \<or> has_class ''touchpoint-card'' e"
proof -
  obtain m where m: "m \<in> set (nodes d)" "collected a m" "ident (label m) = ident e"
    using assms(3) by (auto simp: hide_targets_def)
  have "inj_on ident (set (elems d))"
    using assms(1) by (simp add: wf_dom_def distinct_map)
  moreover have "label m \<in> set (elems d)"
    using m(1) by (simp add: elems_def)
  ultimately have "label m = e"
    using assms(2) m(3) by (auto dest: inj_onD)
  with m(2) show ?thesis by (simp add: collected_def)
qed

lemma paywalled_hide_if [simp]: "paywalled (map_elems (hide_if S) n) = paywalled n"
  by (simp add: paywalled_def)

subsection \<open>Properties of hideCards and reapplyFilters\<close>

text \<open>
  C1. Refinement: on a page whose element identities are distinct, \<open>hideCards\<close>
  hides exactly the cards collected for the current mode (content class of the
  mode, or touchpoint class) that are paywalled or sponsored, and changes nothing
  else on the page.
\<close>

theorem hideCards_refines:
  assumes "wf_dom (doc s)"
  shows "doc (hideCards s) = filter_spec (list_mode_active s) (doc s)"
  using assms by (simp add: hideCards_doc_wf filter_spec_def)

text \<open>
  C2. \<open>reapplyFilters\<close> ignores whatever the tab cache held: it filters the page
  for the mode that the page's List tab shows now (its \<open>aria-selected\<close>), so a
  stale cached \<open>isSelected\<close> never influences the result.
\<close>

theorem reapplyFilters_fresh:
  assumes "wf_dom (doc s)"
  shows "doc (reapplyFilters s) = filter_spec (list_tab_selected (doc s)) (doc s)"
  using assms
  by (simp add: reapplyFilters_def refreshTabsCache_def hideCards_doc_wf filter_spec_def
                list_mode_active_no_cache)

text \<open>
  C3. Every element carrying the sponsored marker class \<open>touchpoint-card\<close> is
  hidden (display none and class \<open>hidden-card\<close>) after \<open>hideCards\<close>, in every
  view mode.
\<close>

theorem hideCards_hides_sponsored:
  assumes "wf_dom (doc s)"
  shows "\<forall>e \<in> set (elems (doc (hideCards s))). has_class ''touchpoint-card'' e \<longrightarrow> card_hidden e"
proof
  fix e
  assume "e \<in> set (elems (doc (hideCards s)))"
  then obtain n where n: "n \<in> set (nodes (doc s))"
    and e: "e = hide_if (set (hide_targets (list_mode_active s) (doc s))) (label n)"
    using assms by (auto simp: hideCards_doc_wf elems_def nodes_map_elems)
  show "has_class ''touchpoint-card'' e \<longrightarrow> card_hidden e"
  proof
    assume "has_class ''touchpoint-card'' e"
    then have "collected (list_mode_active s) n" and "sponsored n"
      using e by (simp_all add: collected_def sponsored_def)
    then show "card_hidden e"
      using e n by (simp add: hide_if_def in_hide_targets)
  qed
qed

text \<open>
  C4. Every card collected in the current mode that has a descendant carrying
  \<open>paywall-label\<close> or \<open>plusBooking\<close> is hidden after \<open>hideCards\<close>.
\<close>

theorem hideCards_hides_paywalled:
  assumes "wf_dom (doc s)"
  shows "\<forall>n \<in> set (nodes (doc (hideCards s))).
           has_class (content_class (list_mode_active s)) (label n) \<and> paywalled n \<longrightarrow>
           card_hidden (label n)"
proof
  fix n
  assume "n \<in> set (nodes (doc (hideCards s)))"
  then obtain m where m: "m \<in> set (nodes (doc s))"
    and n: "n = map_elems (hide_if (set (hide_targets (list_mode_active s) (doc s)))) m"
    using assms by (auto simp: hideCards_doc_wf nodes_map_elems)
  show "has_class (content_class (list_mode_active s)) (label n) \<and> paywalled n \<longrightarrow>
        card_hidden (label n)"
  proof
    assume "has_class (content_class (list_mode_active s)) (label n) \<and> paywalled n"
    then have "collected (list_mode_active s) m" and "paywalled m"
      using n by (simp_all add: collected_def)
    then show "card_hidden (label n)"
      using n m by (simp add: hide_if_def in_hide_targets)
  qed
qed

text \<open>
  C5. The cards \<open>getCards\<close> returns after the cache is reset: when the page's
  List tab is selected, the list-container cards (\<open>result-list__listing\<close>) and
  then all touchpoint cards; when it is absent or unselected, the grid cards
  (\<open>listing-card\<close>) and then all touchpoint cards.
\<close>

theorem getCards_fresh:
  "fst (getCards (refreshTabsCache s)) =
     (if list_tab_selected (doc s) then getElementsByClassName (doc s) ''result-list__listing''
      else getElementsByClassName (doc s) ''listing-card'') @
     getElementsByClassName (doc s) ''touchpoint-card''"
  by (simp add: getCards_fst list_mode_active_no_cache refreshTabsCache_def collect_cards_def
                content_class_def)

text \<open>
  C6. Idempotence: a second \<open>hideCards\<close> right after the first leaves the page
  as the first one left it.
\<close>

theorem hideCards_idempotent: "doc (hideCards (hideCards s)) = doc (hideCards s)"
proof -
  let ?a = "list_mode_active s" and ?d = "doc s"
  let ?S = "set (filter (to_hide ?d) (collect_cards ?a ?d))"
  have "list_mode_active (hideCards s) = ?a"
    unfolding list_mode_active_def
    by (simp only: getAllMapToggleTabs_cached [OF hideCards_cache [of s]] fst_conv)
  then show ?thesis
    by (simp add: hideCards_doc [of "hideCards s"]) (simp add: hideCards_doc)
qed

text \<open>
  C7. Idempotence of the public entry point: running \<open>reapplyFilters\<close> twice
  in a row, as two overlapping click timers do, leaves the page as one run does.
\<close>

theorem reapplyFilters_idempotent:
  "doc (reapplyFilters (reapplyFilters s)) = doc (reapplyFilters s)"
  by (simp add: reapplyFilters_doc refilter_idem)

text \<open>
  C8. The count that \<open>hideCards\<close> logs: \<open>LogNoCards\<close> when no card is
  collected, otherwise the number of entries of the card list that pass the
  paywall/sponsored test (an element listed twice is counted twice) out of the
  length of the list.
\<close>

theorem hideCards_count:
  "console (hideCards s) =
     console (snd (getCards s)) @
     [if collect_cards (list_mode_active s) (doc s) = [] then LogNoCards
      else LogHidden (length (filter (to_hide (doc s)) (collect_cards (list_mode_active s) (doc s))))
                     (length (collect_cards (list_mode_active s) (doc s)))]"
  by (simp add: hideCards_def split_def Let_def hide_loop_eq getCards_fst)

text \<open>
  C10. Error path: when the page has no List tab, the lookups degrade to
  warnings and a fallback, never to an abort: \<open>getCards\<close> (after the cache
  reset) returns the grid cards and the touchpoint cards, and the console has
  the warning for the missing tab and for the missing mode.
\<close>

theorem missing_list_tab_grid:
  assumes "querySelector (doc s) (has_testid ''mapToggleListMode'') = None"
  shows "fst (getCards (refreshTabsCache s)) =
           getElementsByClassName (doc s) ''listing-card'' @
           getElementsByClassName (doc s) ''touchpoint-card'' \<and>
         WarnTabMissing ''mapToggleListMode'' \<in> set (console (snd (getCards (refreshTabsCache s)))) \<and>
         WarnModeMissing ''List'' \<in> set (console (snd (getCards (refreshTabsCache s))))"
proof -
  have none: "tab_of_testId (doc s) ''mapToggleListMode'' = None"
    using assms by (simp add: tab_of_testId_def)
  have sel: "\<not> list_tab_selected (doc s)"
    using assms by (simp add: list_tab_selected_def)
  show ?thesis
    using none sel
    by (simp add: getCards_fst getCards_console list_mode_active_no_cache refreshTabsCache_def
                  collect_cards_def content_class_def findTabByMode_eq getAllMapToggleTabs_fresh
                  find_scan_tabs_List missing_tab_warnings_def testIds_def)
qed

text \<open>
  C12. Cache invariant: after \<open>reapplyFilters\<close> the tab cache holds exactly a
  complete scan of the page as it now is; it is never a partial update and never
  a scan of an earlier page.
\<close>

theorem reapplyFilters_cache_consistent:
  "tabsCache (reapplyFilters s) = Some (scan_tabs (doc (reapplyFilters s)))"
  by (simp add: reapplyFilters_def hideCards_cache hideCards_doc refreshTabsCache_def
                getAllMapToggleTabs_fresh)

text \<open>
  C13. Frame: \<open>hideCards\<close> leaves every element that is neither a card of the
  current mode's container class nor a touchpoint card exactly as it was, paywall
  markers or not. In particular a paywalled grid card is not hidden while the
  List tab is selected, whereas the specification says paywalled cards are
  hidden regardless of mode.
\<close>

theorem hideCards_spares_uncollected:
  assumes "wf_dom (doc s)"
  shows "list_all2
           (\<lambda>e e'. \<not> has_class (content_class (list_mode_active s)) e \<and>
                   \<not> has_class ''touchpoint-card'' e \<longrightarrow> e' = e)
           (elems (doc s)) (elems (doc (hideCards s)))"
proof -
  let ?T = "set (hide_targets (list_mode_active s) (doc s))"
  have "\<forall>e \<in> set (elems (doc s)).
          \<not> has_class (content_class (list_mode_active s)) e \<and>
          \<not> has_class ''touchpoint-card'' e \<longrightarrow> hide_if ?T e = e"
    using hide_targets_collected [OF assms] by (auto simp: hide_if_def)
  then show ?thesis
    using assms by (simp add: hideCards_doc_wf list_all2_map2 list_all2_same)
qed

end
