(* ===== verification/Events.thy ===== *)
theory Events
  imports Cards
begin

text \<open>
  The top level of src/js/HideMieterPlus.js (lines 177--199): the script creates
  the \<open>CardManager\<close> (which filters once), registers a click listener on the
  document that schedules \<open>reapplyFilters\<close> 500 ms after a click on an element
  whose \<open>data-testid\<close> starts with \<open>mapToggle\<close>, and registers a click
  listener on the pagination \<open>nav\<close> that does the same after a click inside a
  \<open>button\<close>. The browser's state extends the \<open>CardManager\<close> state with the
  registered listeners, the deadlines of the pending \<open>setTimeout\<close> callbacks (in
  scheduling order; every callback is \<open>cardManager.reapplyFilters()\<close>) and the
  clock in milliseconds. Script loading returns the uncaught exception as a sum
  value. The steps of the script are \<open>script_step\<close>: a click on an element of
  the page, a clock tick, the firing of the first due timer. The event loop
  \<open>bstep\<close> adds the environment's step, a re-render of the page by the host
  (any page with distinct identities); runs are reflexive transitive closures,
  and \<open>reachable\<close> are the states of runs from a loaded script.
\<close>

datatype listener = DocumentClick | PaginationClick eid

datatype js_error = TypeError

record browser = cm_state +
  listeners :: "listener list"
  timers :: "nat list"
  now :: nat

definition reapply_delay :: nat where
  "reapply_delay = 500"

definition setTimeout_reapply :: "'a browser_scheme \<Rightarrow> 'a browser_scheme" where
  "setTimeout_reapply b = b\<lparr>timers := timers b @ [now b + reapply_delay]\<rparr>"

definition is_map_toggle :: "elem \<Rightarrow> bool" where
  "is_map_toggle e \<longleftrightarrow> attr_starts_with ''data-testid'' ''mapToggle'' e"

definition is_button :: "elem \<Rightarrow> bool" where
  "is_button e \<longleftrightarrow> tag e = ''button''"

definition is_pagination_nav :: "elem \<Rightarrow> bool" where
  "is_pagination_nav e \<longleftrightarrow> tag e = ''nav'' \<and> getAttribute e ''aria-label'' = Some ''pagination''"

definition document_click_handler :: "eid \<Rightarrow> 'a browser_scheme \<Rightarrow> 'a browser_scheme" where
  "document_click_handler target b =
     (case get_node (doc b) target of
        None \<Rightarrow> b
      | Some clickedElement \<Rightarrow>
          if is_map_toggle (label clickedElement) then setTimeout_reapply b else b)"

definition pagination_click_handler :: "eid \<Rightarrow> 'a browser_scheme \<Rightarrow> 'a browser_scheme" where
  "pagination_click_handler target b =
     (case closest (doc b) target is_button of
        None \<Rightarrow> b
      | Some button \<Rightarrow> setTimeout_reapply b)"

fun run_listener :: "eid \<Rightarrow> listener \<Rightarrow> 'a browser_scheme \<Rightarrow> 'a browser_scheme" where
  "run_listener target DocumentClick b = document_click_handler target b"
| "run_listener target (PaginationClick nav) b = pagination_click_handler target b"

text \<open>
  A click event bubbles from its target up to the document: a listener on an
  element fires when that element is the target or one of its ancestors, and
  before the listener on the document.
\<close>

definition listener_fires :: "node \<Rightarrow> eid \<Rightarrow> listener \<Rightarrow> bool" where
  "listener_fires d target l =
     (case l of
        DocumentClick \<Rightarrow> True
      | PaginationClick nav \<Rightarrow>
          (case path_to target d of None \<Rightarrow> False | Some p \<Rightarrow> nav \<in> set (map ident p)))"

definition bubble_order :: "listener list \<Rightarrow> listener list" where
  "bubble_order ls = filter (\<lambda>l. l \<noteq> DocumentClick) ls @ filter (\<lambda>l. l = DocumentClick) ls"

definition dispatch_click :: "eid \<Rightarrow> 'a browser_scheme \<Rightarrow> 'a browser_scheme" where
  "dispatch_click target b =
     fold (run_listener target) (filter (listener_fires (doc b) target) (bubble_order (listeners b))) b"

definition load_script :: "node \<Rightarrow> (js_error + unit) \<times> browser" where
  "load_script d =
     (let b0 = CardManager_new
                 \<lparr>doc = d, tabsCache = None, console = [], listeners = [], timers = [], now = 0\<rparr>;
          b1 = b0\<lparr>listeners := listeners b0 @ [DocumentClick]\<rparr>
      in case querySelector (doc b1) is_pagination_nav of
           None \<Rightarrow> (Inl TypeError, b1)
         | Some nav \<Rightarrow> (Inr (), b1\<lparr>listeners := listeners b1 @ [PaginationClick (ident nav)]\<rparr>))"

inductive script_step :: "browser \<Rightarrow> browser \<Rightarrow> bool" where
  click: "get_node (doc b) target \<noteq> None \<Longrightarrow> script_step b (dispatch_click target b)"
| tick: "script_step b (b\<lparr>now := Suc (now b)\<rparr>)"
| fire: "timers b = t # ts \<Longrightarrow> t \<le> now b \<Longrightarrow>
         script_step b (reapplyFilters (b\<lparr>timers := ts\<rparr>))"

inductive bstep :: "browser \<Rightarrow> browser \<Rightarrow> bool" where
  script: "script_step b b' \<Longrightarrow> bstep b b'"
| render: "wf_dom d' \<Longrightarrow> bstep b (b\<lparr>doc := d'\<rparr>)"

inductive reachable :: "node \<Rightarrow> browser \<Rightarrow> bool" where
  load: "wf_dom d \<Longrightarrow> reachable d (snd (load_script d))"
| step: "reachable d b \<Longrightarrow> bstep b b' \<Longrightarrow> reachable d b'"

definition timers_ok :: "'a browser_scheme \<Rightarrow> bool" where
  "timers_ok b \<longleftrightarrow> sorted (timers b) \<and> (\<forall>t \<in> set (timers b). t \<le> now b + reapply_delay)"

definition browser_inv :: "node \<Rightarrow> browser \<Rightarrow> bool" where
  "browser_inv d b \<longleftrightarrow>
     timers_ok b \<and> wf_dom (doc b) \<and> listeners b = listeners (snd (load_script d))"

subsection \<open>Frame lemmas\<close>

lemma setTimeout_reapply_fields [simp]:
  "doc (setTimeout_reapply b) = doc b" "tabsCache (setTimeout_reapply b) = tabsCache b"
  "console (setTimeout_reapply b) = console b" "listeners (setTimeout_reapply b) = listeners b"
  "now (setTimeout_reapply b) = now b"
  "timers (setTimeout_reapply b) = timers b @ [now b + reapply_delay]"
  by (simp_all add: setTimeout_reapply_def)

lemma run_listener_cases:
  "run_listener t l b = b \<or> run_listener t l b = setTimeout_reapply b"
  by (cases l) (auto simp: document_click_handler_def pagination_click_handler_def
                     split: option.splits)

lemma fold_run_listener:
  "\<exists>k \<le> length ls.
     fold (run_listener t) ls b = b\<lparr>timers := timers b @ replicate k (now b + reapply_delay)\<rparr>"
proof (induction ls arbitrary: b)
  case Nil
  have "b\<lparr>timers := timers b @ replicate 0 (now b + reapply_delay)\<rparr> = b" by simp
  then show ?case by (metis fold_simps(1) le_refl list.size(3))
next
  case (Cons l ls)
  from run_listener_cases [of t l b] show ?case
  proof
    assume "run_listener t l b = b"
    with Cons.IH [of b] show ?thesis by (auto intro: le_SucI)
  next
    assume r: "run_listener t l b = setTimeout_reapply b"
    from Cons.IH [of "setTimeout_reapply b"] obtain k where k: "k \<le> length ls" and
      "fold (run_listener t) ls (setTimeout_reapply b) =
         (setTimeout_reapply b)\<lparr>timers := timers b @ [now b + reapply_delay] @
            replicate k (now b + reapply_delay)\<rparr>"
      by auto
    then have "fold (run_listener t) (l # ls) b =
        b\<lparr>timers := timers b @ replicate (Suc k) (now b + reapply_delay)\<rparr>"
      using r by (simp add: setTimeout_reapply_def replicate_append_same [symmetric])
    with k show ?thesis by (metis Suc_le_mono length_Cons)
  qed
qed

lemma length_bubble_order [simp]: "length (bubble_order ls) = length ls"
  unfolding bubble_order_def
  using sum_length_filter_compl [of "\<lambda>l. l \<noteq> DocumentClick" ls] by simp

lemma dispatch_click_bounded:
  "\<exists>k \<le> length (listeners b).
     dispatch_click t b = b\<lparr>timers := timers b @ replicate k (now b + reapply_delay)\<rparr>"
proof -
  let ?ls = "filter (listener_fires (doc b) t) (bubble_order (listeners b))"
  obtain k where "k \<le> length ?ls"
    "dispatch_click t b = b\<lparr>timers := timers b @ replicate k (now b + reapply_delay)\<rparr>"
    unfolding dispatch_click_def using fold_run_listener by blast
  moreover have "length ?ls \<le> length (listeners b)"
    by (metis length_bubble_order length_filter_le)
  ultimately show ?thesis by (meson le_trans)
qed

lemma dispatch_click_eq:
  "\<exists>k. dispatch_click t b = b\<lparr>timers := timers b @ replicate k (now b + reapply_delay)\<rparr>"
  using dispatch_click_bounded by blast

lemma reapplyFilters_frame:
  "reapplyFilters b =
     b\<lparr>doc := doc (reapplyFilters b), tabsCache := tabsCache (reapplyFilters b),
       console := console (reapplyFilters b)\<rparr>"
  unfolding reapplyFilters_def refreshTabsCache_def by (rule trans [OF hideCards_frame]) simp

lemma reapplyFilters_listeners [simp]: "listeners (reapplyFilters b) = listeners b"
  by (subst reapplyFilters_frame) simp

lemma reapplyFilters_timers [simp]: "timers (reapplyFilters b) = timers b"
  by (subst reapplyFilters_frame) simp

lemma reapplyFilters_now [simp]: "now (reapplyFilters b) = now b"
  by (subst reapplyFilters_frame) simp

lemma wf_dom_reapplyFilters [simp]: "wf_dom (doc (reapplyFilters b)) = wf_dom (doc b)"
  by (simp add: reapplyFilters_def hideCards_doc wf_dom_map_elems refreshTabsCache_def)

lemma hideCards_listeners [simp]: "listeners (hideCards b) = listeners b"
  by (subst hideCards_frame) simp

lemma hideCards_timers [simp]: "timers (hideCards b) = timers b"
  by (subst hideCards_frame) simp

lemma is_pagination_nav_hide_if [simp]: "is_pagination_nav (hide_if S e) = is_pagination_nav e"
  by (simp add: is_pagination_nav_def hide_if_def getAttribute_def)

subsection \<open>Loading the script\<close>

definition initial_browser :: "node \<Rightarrow> browser" where
  "initial_browser d = \<lparr>doc = d, tabsCache = None, console = [], listeners = [], timers = [], now = 0\<rparr>"

lemma load_script_eq:
  "load_script d =
     (case querySelector d is_pagination_nav of
        None \<Rightarrow> (Inl TypeError, (hideCards (initial_browser d))\<lparr>listeners := [DocumentClick]\<rparr>)
      | Some nav \<Rightarrow> (Inr (), (hideCards (initial_browser d))
                      \<lparr>listeners := [DocumentClick, PaginationClick (ident nav)]\<rparr>))"
  by (simp add: load_script_def CardManager_new_def init_def Let_def initial_browser_def
                hideCards_doc querySelector_map_elems split: option.splits)

lemma doc_load_script:
  "wf_dom d \<Longrightarrow> doc (snd (load_script d)) = filter_spec (list_tab_selected d) d"
  by (simp add: load_script_eq hideCards_doc_wf filter_spec_def list_mode_active_no_cache
                initial_browser_def split: option.splits)

subsection \<open>Steps\<close>

lemma timers_ok_append:
  "timers_ok b \<Longrightarrow> timers_ok (b\<lparr>timers := timers b @ replicate k (now b + reapply_delay)\<rparr>)"
  by (auto simp: timers_ok_def sorted_append)

lemma browser_inv_load: "wf_dom d \<Longrightarrow> browser_inv d (snd (load_script d))"
  by (simp add: browser_inv_def timers_ok_def load_script_eq initial_browser_def hideCards_doc
                wf_dom_map_elems split: option.splits)

lemma browser_inv_script_step:
  "script_step b b' \<Longrightarrow> browser_inv d b \<Longrightarrow> browser_inv d b'"
proof (induction rule: script_step.induct)
  case (click b target)
  obtain k where "dispatch_click target b =
      b\<lparr>timers := timers b @ replicate k (now b + reapply_delay)\<rparr>"
    using dispatch_click_eq by blast
  with click.prems show ?case
    by (simp add: browser_inv_def timers_ok_append)
next
  case (tick b)
  then show ?case by (auto simp: browser_inv_def timers_ok_def)
next
  case (fire b t ts)
  then show ?case by (simp add: browser_inv_def timers_ok_def)
qed

lemma browser_inv_step: "bstep b b' \<Longrightarrow> browser_inv d b \<Longrightarrow> browser_inv d b'"
proof (induction rule: bstep.induct)
  case (script b b')
  then show ?case by (rule browser_inv_script_step)
next
  case (render d' b)
  then show ?case by (simp add: browser_inv_def timers_ok_def)
qed

lemma script_step_doc:
  "script_step b b' \<Longrightarrow> doc b' = doc b \<or> doc b' = refilter (doc b)"
proof (induction rule: script_step.induct)
  case (click b target)
  then show ?case using dispatch_click_eq [of target b] by auto
next
  case (tick b)
  then show ?case by simp
next
  case (fire b t ts)
  then show ?case by (simp add: reapplyFilters_doc)
qed

lemma script_steps_doc:
  "script_step\<^sup>*\<^sup>* b b' \<Longrightarrow> doc b' = doc b \<or> doc b' = refilter (doc b)"
proof (induction rule: rtranclp_induct)
  case base
  then show ?case by simp
next
  case (step b1 b2)
  from script_step_doc [OF step.hyps(2)] step.IH show ?case
    by (auto simp: refilter_idem)
qed

lemma dispatch_click_doc_only:
  "listeners b = [DocumentClick] \<Longrightarrow> dispatch_click target b = document_click_handler target b"
  by (simp add: dispatch_click_def bubble_order_def listener_fires_def)

lemma ticks: "script_step\<^sup>*\<^sup>* b (b\<lparr>now := now b + k\<rparr>)"
proof (induction k)
  case 0
  then show ?case by simp
next
  case (Suc k)
  have "script_step (b\<lparr>now := now b + k\<rparr>) (b\<lparr>now := Suc (now b + k)\<rparr>)"
    using script_step.tick [of "b\<lparr>now := now b + k\<rparr>"] by simp
  with Suc show ?case by (simp add: rtranclp.rtrancl_into_rtrancl)
qed

lemma drain_due_timers:
  "\<forall>t \<in> set (timers b). t \<le> now b \<Longrightarrow>
   \<exists>b'. script_step\<^sup>*\<^sup>* b b' \<and> timers b' = [] \<and> now b' = now b"
proof (induction "timers b" arbitrary: b)
  case Nil
  then show ?case by (metis rtranclp.rtrancl_refl)
next
  case (Cons t ts)
  let ?b1 = "reapplyFilters (b\<lparr>timers := ts\<rparr>)"
  have tb: "timers b = t # ts"
    using Cons.hyps(2) by simp
  have due: "t \<le> now b"
    using Cons.prems tb by simp
  have step: "script_step b ?b1"
    by (rule script_step.fire [OF tb due])
  have "\<forall>t \<in> set (timers ?b1). t \<le> now ?b1"
    using Cons.prems tb by simp
  then obtain b' where "script_step\<^sup>*\<^sup>* ?b1 b'" "timers b' = []" "now b' = now ?b1"
    using Cons.hyps(1) [of ?b1] by auto
  with step show ?case by (auto intro: converse_rtranclp_into_rtranclp)
qed

subsection \<open>Properties of the event loop\<close>

text \<open>
  C14. Invariant of every reachable state: the pending re-apply deadlines are in
  order and none is more than 500 ms away, element identities on the page stay
  distinct, and the registered listeners are those of the script's load.
\<close>

theorem reachable_browser_inv: "reachable d b \<Longrightarrow> browser_inv d b"
  by (induction rule: reachable.induct) (auto intro: browser_inv_load browser_inv_step)

text \<open>
  C15. Progress: from a state whose timer queue is well formed, the script's own
  steps alone (500 ms of clock ticks, then firing the due timers, with no help
  from the host) run every pending \<open>reapplyFilters\<close> and empty the queue.
\<close>

theorem pending_reapplies_run:
  assumes "timers_ok b"
  shows "\<exists>b'. script_step\<^sup>*\<^sup>* b b' \<and> timers b' = [] \<and> now b' = now b + reapply_delay"
proof -
  let ?b0 = "b\<lparr>now := now b + reapply_delay\<rparr>"
  have run: "script_step\<^sup>*\<^sup>* b ?b0"
    by (rule ticks)
  have "\<forall>t \<in> set (timers ?b0). t \<le> now ?b0"
    using assms by (simp add: timers_ok_def)
  then obtain b' where "script_step\<^sup>*\<^sup>* ?b0 b'" "timers b' = []" "now b' = now ?b0"
    using drain_due_timers by blast
  with run show ?thesis by (auto intro: rtranclp_trans)
qed

text \<open>
  C16. A step that consumes a pending timer re-filters the page as it is at that
  moment, with a fresh tab scan: whatever the host re-rendered since the click,
  the result is the declarative filter for the current List-tab state, and the
  cache afterwards is a complete scan of the resulting page.
\<close>

theorem bstep_fire_refilters:
  assumes "wf_dom (doc b)" and "bstep b b'" and "length (timers b') < length (timers b)"
  shows "doc b' = filter_spec (list_tab_selected (doc b)) (doc b) \<and>
         tabsCache b' = Some (scan_tabs (doc b'))"
  using assms(2)
proof (cases rule: bstep.cases)
  case script
  then show ?thesis
  proof (cases rule: script_step.cases)
    case (click target)
    with assms(3) show ?thesis
      using dispatch_click_eq [of target b] by auto
  next
    case tick
    with assms(3) show ?thesis by simp
  next
    case (fire t ts)
    let ?s = "b\<lparr>timers := ts, tabsCache := None\<rparr>"
    have eq: "b' = hideCards ?s"
      using fire by (simp add: reapplyFilters_def refreshTabsCache_def)
    have wf: "wf_dom (doc ?s)"
      using assms(1) by simp
    have "doc b' = filter_spec (list_tab_selected (doc b)) (doc b)"
      using hideCards_doc_wf [OF wf] by (simp add: eq filter_spec_def list_mode_active_no_cache)
    moreover have "tabsCache b' = Some (scan_tabs (doc b'))"
      by (simp add: eq hideCards_cache hideCards_doc getAllMapToggleTabs_fresh)
    ultimately show ?thesis ..
  qed
next
  case (render d')
  with assms(3) show ?thesis by simp
qed

text \<open>
  C17. The click handlers only schedule: dispatching a click never touches the
  page, the cache, the console or the clock, and adds at most one pending
  re-apply per registered listener, each due 500 ms after the click. A handler
  that filtered synchronously, rewrote the page or used another delay would
  break this.
\<close>

theorem dispatch_click_only_schedules:
  "\<exists>k \<le> length (listeners b).
     dispatch_click target b = b\<lparr>timers := timers b @ replicate k (now b + 500)\<rparr>"
  using dispatch_click_bounded [of b target] by (simp add: reapply_delay_def)

text \<open>
  C18. Error path of the script's load: on a page without a
  \<open>nav[aria-label="pagination"]\<close>, \<open>document.querySelector\<close> returns null
  and \<open>.addEventListener\<close> on it throws a TypeError that nothing catches. The
  constructor has already filtered the page and the document listener is
  registered; the pagination listener is not.
\<close>

theorem load_script_no_nav:
  assumes "querySelector d is_pagination_nav = None"
  shows "fst (load_script d) = Inl TypeError \<and>
         listeners (snd (load_script d)) = [DocumentClick] \<and>
         timers (snd (load_script d)) = [] \<and>
         doc (snd (load_script d)) = doc (hideCards (initial_browser d))"
  using assms by (simp add: load_script_eq initial_browser_def)

text \<open>
  C19. Normal load: on a page with distinct identities and a pagination
  \<open>nav\<close>, the script returns normally with both listeners registered (the
  pagination listener on the first such \<open>nav\<close>), no timer pending, and the page
  filtered for the mode its List tab shows.
\<close>

theorem load_script_filters:
  assumes "wf_dom d" and "querySelector d is_pagination_nav = Some nav"
  shows "fst (load_script d) = Inr () \<and>
         listeners (snd (load_script d)) = [DocumentClick, PaginationClick (ident nav)] \<and>
         timers (snd (load_script d)) = [] \<and>
         doc (snd (load_script d)) = filter_spec (list_tab_selected d) d"
proof -
  have "doc (snd (load_script d)) = filter_spec (list_tab_selected d) d"
    by (rule doc_load_script [OF assms(1)])
  then show ?thesis
    using assms(2) by (simp add: load_script_eq initial_browser_def)
qed

text \<open>
  C20. With the document listener alone, a click schedules one re-apply due
  500 ms later exactly when the clicked element itself carries a
  \<open>data-testid\<close> attribute beginning with \<open>mapToggle\<close>, and leaves the
  state unchanged otherwise. Ancestors are not consulted: a click on a child of
  a view tab schedules nothing.
\<close>

theorem document_click_dispatch:
  assumes "listeners b = [DocumentClick]" and "get_node (doc b) target = Some n"
  shows "dispatch_click target b =
           (if \<exists>w. getAttribute (label n) ''data-testid'' = Some (''mapToggle'' @ w)
            then b\<lparr>timers := timers b @ [now b + 500]\<rparr> else b)"
  using assms
  by (simp add: dispatch_click_doc_only document_click_handler_def is_map_toggle_def
                attr_starts_with_iff setTimeout_reapply_def reapply_delay_def)

text \<open>
  C21. With both listeners registered, a click on an element whose ancestor path
  (root to target) is \<open>p\<close> schedules one re-apply for lying inside the
  pagination \<open>nav\<close> below or at a \<open>button\<close>, plus one for being a view
  toggle itself, all due 500 ms later, and changes nothing else. So a toggle
  button placed inside the pagination bar schedules two.
\<close>

theorem pagination_click_dispatch:
  assumes "listeners b = [DocumentClick, PaginationClick nav]"
    and "get_node (doc b) target = Some n" and "path_to target (doc b) = Some p"
  shows "dispatch_click target b =
           b\<lparr>timers := timers b @
              replicate ((if nav \<in> ident ` set p \<and> (\<exists>e \<in> set p. tag e = ''button'') then 1 else 0) +
                         (if \<exists>w. getAttribute (label n) ''data-testid'' =
                                   Some (''mapToggle'' @ w) then 1 else 0))
                (now b + 500)\<rparr>"
proof -
  have cl: "closest (doc b) target is_button \<noteq> None \<longleftrightarrow> (\<exists>e \<in> set p. tag e = ''button'')"
    using assms(3) by (simp add: closest_def is_button_def find_not_None_iff del: not_None_eq)
  show ?thesis
    using assms cl
    by (auto simp: dispatch_click_def bubble_order_def listener_fires_def
                   document_click_handler_def pagination_click_handler_def is_map_toggle_def
                   attr_starts_with_iff setTimeout_reapply_def reapply_delay_def
             split: option.splits)
qed

text \<open>
  C22. No coalescing: \<open>k\<close> clicks on a view toggle leave \<open>k\<close> pending
  re-applies, all due 500 ms after the clicks, and change nothing else.
\<close>

theorem tab_clicks_not_coalesced:
  assumes "listeners b = [DocumentClick]" and "get_node (doc b) target = Some n"
    and "is_map_toggle (label n)"
  shows "(dispatch_click target ^^ k) b =
           b\<lparr>timers := timers b @ replicate k (now b + reapply_delay)\<rparr>"
proof (induction k)
  case 0
  then show ?case by simp
next
  case (Suc k)
  then show ?case
    using assms
    by (simp add: dispatch_click_doc_only document_click_handler_def setTimeout_reapply_def
                  replicate_append_same)
qed

text \<open>
  C23. Stability: as long as the host does not re-render, the script's steps
  (clicks, ticks, timers firing) leave the page either untouched or exactly the
  filtered page of the mode its List tab shows; any number of re-applies never
  produce another page.
\<close>

theorem script_runs_stable:
  assumes "wf_dom (doc b)" and "script_step\<^sup>*\<^sup>* b b'"
  shows "doc b' = doc b \<or> doc b' = filter_spec (list_tab_selected (doc b)) (doc b)"
  using script_steps_doc [OF assms(2)] refilter_wf [OF assms(1)] by simp

text \<open>
  C24. The script never un-hides: along any run of the script's own steps every
  element keeps its identity and position, and an element that is hidden stays
  hidden.
\<close>

theorem script_never_unhides:
  assumes "script_step\<^sup>*\<^sup>* b b'"
  shows "list_all2 (\<lambda>e e'. ident e' = ident e \<and> (card_hidden e \<longrightarrow> card_hidden e'))
           (elems (doc b)) (elems (doc b'))"
  using script_steps_doc [OF assms]
  by (auto simp: refilter_def list_all2_map2 list_all2_same card_hidden_hide_if)

end
