(* ===== verification/Spec2Isabelle.thy ===== *)
theory Spec2Isabelle
  imports Events
begin

text \<open>
  \<^bold>\<open>HideMieterPlus: a verification development.\<close>

  The program (src/js/HideMieterPlus.js) is a userscript for a real-estate
  listing page. Its one class \<open>CardManager\<close> finds the listing cards of the
  current view mode and hides those that are paywalled (a descendant carries
  \<open>paywall-label\<close> or \<open>plusBooking\<close>) or sponsored (the card carries
  \<open>touchpoint-card\<close>). The class keeps one field, \<open>tabsCache\<close>, the last scan
  of the three view-mode tabs. The top level of the file creates the manager
  (which filters once) and registers two click listeners that re-run the filter
  500 ms after a click on a view-mode tab or on a button of the pagination bar.
  The parts interact through the page (read by every query, written by the
  hiding), the cache field (written by the scan, reset by \<open>reapplyFilters\<close>)
  and the timer queue (filled by the listeners, drained by the event loop).

  \<^bold>\<open>Theories and correspondence with the code.\<close>
  \<^item> \<open>Prelude\<close>: the type names (\<open>eid\<close> for element identities), the
    collection \<open>dom_simps\<close>, and generic facts about \<open>find\<close> and
    \<open>filter\<close>.
  \<^item> \<open>Dom\<close>: the host page, modelled from the DOM standard (it is not code of
    the repository): an element record (identity, tag, attributes, class list,
    inline display) in a rose tree in document order; the queries the script
    calls (\<open>getElementsByClassName\<close>, \<open>querySelector\<close> on the document and
    on an element, \<open>getAttribute\<close>, \<open>classList.contains\<close>, \<open>closest\<close>)
    and the updates (\<open>classList.add\<close>, \<open>style.display\<close>). A CSS selector is
    the predicate it denotes. Its lemmas push an update of elements
    (\<open>map_elems\<close>) through every query.
  \<^item> \<open>Tabs\<close>: the state of \<open>CardManager\<close> as the record \<open>cm_state\<close>
    (the page \<open>doc\<close>, the field \<open>tabsCache\<close>, the \<open>console\<close> as a list of
    \<open>log_msg\<close> values), and \<open>getAllMapToggleTabs\<close> (lines 43--73; the
    regular-expression replacements of line 66 are \<open>replace_prefix\<close> and
    \<open>replace_suffix\<close>), \<open>findTabByMode\<close> (80--89) and
    \<open>refreshTabsCache\<close> (163--165).
  \<^item> \<open>Cards\<close>: \<open>hasChildWithClass\<close> (30--37), \<open>getCards\<close> (96--123),
    the loop of \<open>hideCards\<close> as the recursive \<open>hide_loop\<close> and
    \<open>hideCards\<close> itself (129--158), \<open>reapplyFilters\<close> (171--174),
    \<open>init\<close> (16--22) and the constructor (5--11). Operations take the state
    and return the new one, polymorphic in the record extension.
  \<^item> \<open>Events\<close>: the top level (177--199). The record \<open>browser\<close> extends
    \<open>cm_state\<close> with the registered listeners, the deadlines of pending
    \<open>setTimeout\<close> callbacks and the clock; \<open>load_script\<close> returns the uncaught
    \<open>TypeError\<close> as a sum value; \<open>document_click_handler\<close> and
    \<open>pagination_click_handler\<close> are the two listeners, \<open>dispatch_click\<close>
    runs them in bubbling order; the inductive \<open>script_step\<close> is the
    script's own steps (click on an element, clock tick, firing of the first due
    timer), \<open>bstep\<close> the event loop that adds a re-render of the page by the
    host, and \<open>reachable\<close> its states from a load.
  \<^item> this theory: concrete pages, the scenario of the specification, and the
    witnesses of the claims.

  \<^bold>\<open>What the lemmas show.\<close>
  \<open>hide_loop_eq\<close>: the sequential loop equals one batch update of the page
  (hiding a card never changes the test on a later card). From it,
  \<open>hideCards\<close> refines the declarative \<open>filter_spec\<close>: on a page with
  distinct identities it hides exactly the collected cards that are paywalled or
  sponsored (C1), and \<open>reapplyFilters\<close> does so for the mode the page shows
  now, whatever the cache held (C2). Sponsored elements are always hidden,
  collected paywalled cards are hidden (C3, C4); the collected list is the
  list-container or grid cards followed by all touchpoint cards (C5);
  \<open>hideCards\<close> and \<open>reapplyFilters\<close> are idempotent (C6, C7); the logged
  count counts list entries (C8). The tab scan returns the first matching
  element's tab (C9), degrades to warnings when tabs are missing (C10), is well
  formed (C11), and the cache is a complete scan of the current page after a
  re-apply (C12). Every element that is neither a card of the current mode's
  container nor a touchpoint card leaves \<open>hideCards\<close> unchanged (C13). In the
  event loop: the invariant of reachable states (C14), every pending re-apply
  runs within 500 ms of ticks (C15), each timer firing re-filters the current
  page with a fresh scan (C16), a click changes nothing but the timer queue, to
  which it appends at most one deadline 500 ms ahead per registered listener
  (C17), loading without a pagination bar ends in an uncaught TypeError (C18), a
  normal load filters and registers both listeners (C19), the exact conditions,
  read off the clicked element's attribute and its ancestor path, under which
  each listener schedules a re-apply (C20, C21), clicks are not coalesced (C22),
  without a host re-render the script's runs leave the page untouched or exactly
  filtered (C23), and the script never un-hides an element (C24).

  \<^bold>\<open>Bounds.\<close> The delay is the source's constant 500 (\<open>reapply_delay\<close>);
  the clock and the counter are \<open>nat\<close>, since JavaScript numbers of this size
  are exact. No fuel is needed: every loop of the script is over a finite list.

  \<^bold>\<open>Findings.\<close> A paywalled card outside the current mode's container is
  not hidden (C13, against the spec's "regardless of mode"); a card listed twice
  is counted twice in the log (C8); a page without the pagination bar aborts the
  script with a TypeError (C18); a click on a child of a tab schedules nothing
  (C20 and its witness); a click on a map toggle inside the pagination bar
  schedules two re-applies (C21).

  \<^bold>\<open>Not modelled.\<close> The text of the console messages (a \<open>log_msg\<close> value
  per message); CSS selector parsing; the host page's rendering, which the event
  loop abstracts as an arbitrary re-render step; \<open>init\<close>'s catch branch, dead
  in the model since no operation raises. The element record keeps the class
  list and the inline \<open>display\<close> apart from \<open>attrs\<close>, whereas in a browser
  \<open>class\<close> and \<open>style\<close> are attributes too; the script reads no attribute
  but \<open>data-testid\<close>, \<open>aria-selected\<close> and \<open>aria-label\<close>, and writes only
  through \<open>classList.add\<close> and \<open>style.display\<close>, so the separation loses
  nothing the script observes.

  \<^bold>\<open>Plan for later sittings.\<close> Relate \<open>closest\<close> and \<open>path_to\<close> to the
  ancestor relation of the tree and prove that the pagination listener may react
  to a button outside the bar (an ancestor of the bar); console-level properties
  (one \<open>WarnTabMissing\<close> per missing tab per scan); the page after a host
  re-render followed by a drained queue.
\<close>

definition mk_elem :: "eid \<Rightarrow> string \<Rightarrow> (attr_name \<times> string) list \<Rightarrow> class_name list \<Rightarrow>
    node list \<Rightarrow> node" where
  "mk_elem i t a c ks = Node \<lparr>ident = i, tag = t, attrs = a, classList = c, display = None\<rparr> ks"

definition scenario_page :: node where
  "scenario_page = mk_elem 0 ''div'' [] [] [
     mk_elem 1 ''button'' [(''data-testid'', ''mapToggleListMode''), (''aria-selected'', ''true'')] [] [],
     mk_elem 2 ''button'' [(''data-testid'', ''mapToggleHybridViewMode''), (''aria-selected'', ''false'')] [] [],
     mk_elem 3 ''button'' [(''data-testid'', ''mapToggleClassicMapMode''), (''aria-selected'', ''false'')] [] [],
     mk_elem 4 ''div'' [] [''result-list__listing''] [mk_elem 5 ''span'' [] [''paywall-label''] []],
     mk_elem 6 ''div'' [] [''result-list__listing''] [],
     mk_elem 7 ''div'' [] [''result-list__listing''] [],
     mk_elem 8 ''div'' [] [''listing-card''] [mk_elem 9 ''span'' [] [''plusBooking''] []],
     mk_elem 10 ''div'' [] [''listing-card''] [],
     mk_elem 11 ''div'' [] [''touchpoint-card''] []]"

definition scenario_state :: cm_state where
  "scenario_state = \<lparr>doc = scenario_page, tabsCache = None, console = []\<rparr>"

definition no_tabs_page :: node where
  "no_tabs_page = mk_elem 0 ''div'' [] [] [
     mk_elem 1 ''div'' [] [''listing-card''] [mk_elem 2 ''span'' [] [''plusBooking''] []],
     mk_elem 3 ''div'' [] [''touchpoint-card''] []]"

definition tabs_page :: node where
  "tabs_page = mk_elem 0 ''div'' [] [] [
     mk_elem 1 ''button'' [(''data-testid'', ''mapToggleListMode''), (''aria-selected'', ''true'')] []
       [mk_elem 2 ''span'' [] [] []],
     mk_elem 3 ''div'' [] [''result-list__listing''] [],
     mk_elem 4 ''div'' [] [''touchpoint-card''] []]"

definition nav_page :: node where
  "nav_page = mk_elem 0 ''div'' [] [] [
     mk_elem 1 ''button'' [(''data-testid'', ''mapToggleListMode''), (''aria-selected'', ''true'')] []
       [mk_elem 2 ''span'' [] [] []],
     mk_elem 3 ''div'' [] [''result-list__listing''] [],
     mk_elem 4 ''div'' [] [''touchpoint-card''] [],
     mk_elem 5 ''nav'' [(''aria-label'', ''pagination'')] []
       [mk_elem 6 ''button'' [] [] [mk_elem 7 ''span'' [] [] []], mk_elem 8 ''span'' [] [] []]]"

definition idle_browser :: "node \<Rightarrow> listener list \<Rightarrow> nat list \<Rightarrow> browser" where
  "idle_browser d ls ts =
     \<lparr>doc = d, tabsCache = None, console = [], listeners = ls, timers = ts, now = 0\<rparr>"

lemmas scenario_defs =
  scenario_state_def scenario_page_def no_tabs_page_def mk_elem_def

lemma wf_scenario_page: "wf_dom scenario_page"
  by (simp add: scenario_page_def mk_elem_def wf_dom_def elems_def)

lemma wf_tabs_page: "wf_dom tabs_page"
  by (simp add: tabs_page_def mk_elem_def wf_dom_def elems_def)

lemma wf_nav_page: "wf_dom nav_page"
  by (simp add: nav_page_def mk_elem_def wf_dom_def elems_def)

lemma wf_no_tabs_page: "wf_dom no_tabs_page"
  by (simp add: no_tabs_page_def mk_elem_def wf_dom_def elems_def)

lemmas page_query_defs =
  getElementsByClassName_def has_class_def elems_def querySelector_def getAttribute_def
  has_testid_def get_node_def hasChildWithClass_def querySelector_in_def descendants_def

subsection \<open>The scenario of the specification\<close>

lemma scenario_after_hideCards:
  "hideCards scenario_state =
     \<lparr>doc = map_elems (hide_if {4, 11}) scenario_page,
      tabsCache = Some [\<lparr>element = 1, mode = ''List'', isSelected = True\<rparr>,
                        \<lparr>element = 2, mode = ''HybridView'', isSelected = False\<rparr>,
                        \<lparr>element = 3, mode = ''ClassicMap'', isSelected = False\<rparr>],
      console = [LogFound 3 1, LogHidden 2 4]\<rparr>"
  by (simp add: scenario_defs page_query_defs hideCards_def getCards_def findTabByMode_def
                getAllMapToggleTabs_def scan_tabs_def missing_tab_warnings_def tab_of_testId_def
                testIds_def mode_of_testId_def replace_prefix_def replace_suffix_def emit_def
                upd_elem_def hide_if_def Let_def)

lemma scenario_list_active: "list_mode_active scenario_state"
  by (simp add: scenario_defs list_mode_active_def getAllMapToggleTabs_fresh list_active_of_def
                find_scan_tabs_List tab_of_testId_def page_query_defs)

subsection \<open>Witnesses\<close>

theorem hideCards_refines_witness:
  "wf_dom (doc scenario_state) \<and>
   doc (hideCards scenario_state) = filter_spec (list_mode_active scenario_state) (doc scenario_state)"
proof -
  have h: "wf_dom (doc scenario_state)"
    by (simp add: scenario_state_def wf_scenario_page)
  show ?thesis using h hideCards_refines [OF h] by blast
qed

theorem reapplyFilters_fresh_witness:
  "wf_dom (doc scenario_state) \<and>
   doc (reapplyFilters scenario_state) =
     filter_spec (list_tab_selected (doc scenario_state)) (doc scenario_state)"
proof -
  have h: "wf_dom (doc scenario_state)"
    by (simp add: scenario_state_def wf_scenario_page)
  show ?thesis using h reapplyFilters_fresh [OF h] by blast
qed

theorem hideCards_hides_sponsored_witness:
  "wf_dom (doc scenario_state) \<and>
   card_hidden (hide_if {4, 11} (label (mk_elem 11 ''div'' [] [''touchpoint-card''] [])))"
proof -
  have h: "wf_dom (doc scenario_state)"
    by (simp add: scenario_state_def wf_scenario_page)
  have "hide_if {4, 11} (label (mk_elem 11 ''div'' [] [''touchpoint-card''] [])) \<in>
          set (elems (doc (hideCards scenario_state)))"
    by (simp add: scenario_after_hideCards scenario_page_def mk_elem_def elems_def)
  moreover have "has_class ''touchpoint-card''
                   (hide_if {4, 11} (label (mk_elem 11 ''div'' [] [''touchpoint-card''] [])))"
    by (simp add: mk_elem_def hide_if_def) (simp add: has_class_def)
  ultimately show ?thesis using h hideCards_hides_sponsored [OF h] by blast
qed

theorem hideCards_hides_paywalled_witness:
  "wf_dom (doc scenario_state) \<and>
   card_hidden (label (map_elems (hide_if {4, 11})
     (mk_elem 4 ''div'' [] [''result-list__listing''] [mk_elem 5 ''span'' [] [''paywall-label''] []])))"
proof -
  let ?n = "map_elems (hide_if {4, 11})
     (mk_elem 4 ''div'' [] [''result-list__listing''] [mk_elem 5 ''span'' [] [''paywall-label''] []])"
  have h: "wf_dom (doc scenario_state)"
    by (simp add: scenario_state_def wf_scenario_page)
  have "?n \<in> set (nodes (doc (hideCards scenario_state)))"
    by (simp add: scenario_after_hideCards scenario_page_def mk_elem_def)
  moreover have "list_mode_active scenario_state"
    by (rule scenario_list_active)
  moreover have "has_class (content_class True) (label ?n) \<and> paywalled ?n"
    by (simp add: mk_elem_def hide_if_def content_class_def paywalled_def descendants_def elems_def
                  hide_elem_def classList_add_def set_display_def has_class_def)
  ultimately show ?thesis using h hideCards_hides_paywalled [OF h] by auto
qed

theorem missing_list_tab_grid_witness:
  "querySelector no_tabs_page (has_testid ''mapToggleListMode'') = None \<and>
   fst (getCards (refreshTabsCache \<lparr>doc = no_tabs_page, tabsCache = None, console = []\<rparr>)) = [1, 3]"
proof -
  have h: "querySelector (doc \<lparr>doc = no_tabs_page, tabsCache = None, console = []\<rparr>)
             (has_testid ''mapToggleListMode'') = None"
    by (simp add: no_tabs_page_def mk_elem_def page_query_defs)
  have "getElementsByClassName no_tabs_page ''listing-card'' @
        getElementsByClassName no_tabs_page ''touchpoint-card'' = [1, 3]"
    by (simp add: no_tabs_page_def mk_elem_def page_query_defs)
  then show ?thesis using h missing_list_tab_grid [OF h] by simp
qed

theorem reachable_browser_inv_witness:
  "reachable tabs_page (snd (load_script tabs_page)) \<and>
   browser_inv tabs_page (snd (load_script tabs_page))"
proof -
  have r: "reachable tabs_page (snd (load_script tabs_page))"
    by (rule reachable.load [OF wf_tabs_page])
  show ?thesis using r reachable_browser_inv [OF r] by blast
qed

theorem pending_reapplies_run_witness:
  "timers_ok (idle_browser tabs_page [DocumentClick] [500, 500]) \<and>
   (\<exists>b'. script_step\<^sup>*\<^sup>* (idle_browser tabs_page [DocumentClick] [500, 500]) b' \<and>
         timers b' = [] \<and> now b' = 500)"
proof -
  have h: "timers_ok (idle_browser tabs_page [DocumentClick] [500, 500])"
    by (simp add: timers_ok_def idle_browser_def reapply_delay_def)
  show ?thesis
    using h pending_reapplies_run [OF h] by (simp add: idle_browser_def reapply_delay_def)
qed

theorem bstep_fire_refilters_witness:
  "wf_dom (doc (idle_browser tabs_page [DocumentClick] [0])) \<and>
   bstep (idle_browser tabs_page [DocumentClick] [0])
         (reapplyFilters (idle_browser tabs_page [DocumentClick] [])) \<and>
   doc (reapplyFilters (idle_browser tabs_page [DocumentClick] [])) =
     filter_spec (list_tab_selected tabs_page) tabs_page"
proof -
  let ?b = "idle_browser tabs_page [DocumentClick] [0]"
  have wf: "wf_dom (doc ?b)"
    by (simp add: idle_browser_def wf_tabs_page)
  have "bstep ?b (reapplyFilters (?b\<lparr>timers := []\<rparr>))"
    by (intro bstep.script script_step.fire) (simp_all add: idle_browser_def)
  then have st: "bstep ?b (reapplyFilters (idle_browser tabs_page [DocumentClick] []))"
    by (simp add: idle_browser_def)
  have len: "length (timers (reapplyFilters (idle_browser tabs_page [DocumentClick] []))) <
             length (timers ?b)"
    by (simp add: idle_browser_def)
  show ?thesis
    using wf st bstep_fire_refilters [OF wf st len] by (simp add: idle_browser_def)
qed

theorem dispatch_click_only_schedules_witness:
  "\<exists>k \<le> 1. dispatch_click 1 (idle_browser tabs_page [DocumentClick] []) =
     (idle_browser tabs_page [DocumentClick] [])\<lparr>timers := replicate k 500\<rparr>"
  using dispatch_click_only_schedules [of "idle_browser tabs_page [DocumentClick] []" 1]
  by (simp add: idle_browser_def)

theorem load_script_no_nav_witness:
  "querySelector tabs_page is_pagination_nav = None \<and>
   fst (load_script tabs_page) = Inl TypeError \<and>
   listeners (snd (load_script tabs_page)) = [DocumentClick]"
proof -
  have h: "querySelector tabs_page is_pagination_nav = None"
    by (simp add: tabs_page_def mk_elem_def querySelector_def elems_def is_pagination_nav_def)
  show ?thesis using h load_script_no_nav [OF h] by simp
qed

theorem load_script_filters_witness:
  "wf_dom nav_page \<and>
   fst (load_script nav_page) = Inr () \<and>
   listeners (snd (load_script nav_page)) = [DocumentClick, PaginationClick 5]"
proof -
  let ?nav = "\<lparr>ident = 5, tag = ''nav'', attrs = [(''aria-label'', ''pagination'')],
               classList = [], display = None\<rparr>"
  have h: "querySelector nav_page is_pagination_nav = Some ?nav"
    by (simp add: nav_page_def mk_elem_def querySelector_def elems_def is_pagination_nav_def
                  getAttribute_def)
  show ?thesis using wf_nav_page load_script_filters [OF wf_nav_page h] by simp
qed

text \<open>
  The witness of C20 is the finding about the document listener: a click on
  the \<open>span\<close> inside the List tab button (element 2) schedules nothing.
\<close>

theorem document_click_dispatch_witness:
  "get_node tabs_page 2 = Some (mk_elem 2 ''span'' [] [] []) \<and>
   dispatch_click 2 (idle_browser tabs_page [DocumentClick] []) =
     idle_browser tabs_page [DocumentClick] []"
proof -
  let ?b = "idle_browser tabs_page [DocumentClick] []"
  have l: "listeners ?b = [DocumentClick]"
    by (simp add: idle_browser_def)
  have g: "get_node (doc ?b) 2 = Some (mk_elem 2 ''span'' [] [] [])"
    by (simp add: idle_browser_def tabs_page_def mk_elem_def get_node_def)
  have "getAttribute (label (mk_elem 2 ''span'' [] [] [])) ''data-testid'' = None"
    by (simp add: mk_elem_def getAttribute_def)
  then show ?thesis
    using g document_click_dispatch [OF l g] by (simp add: idle_browser_def)
qed

text \<open>
  A click on the \<open>span\<close> inside the pagination button (element 7) schedules
  one re-apply; a click on the bare \<open>span\<close> of the bar (element 8) none.
\<close>

theorem pagination_click_dispatch_witness:
  "dispatch_click 7 (idle_browser nav_page [DocumentClick, PaginationClick 5] []) =
     idle_browser nav_page [DocumentClick, PaginationClick 5] [500] \<and>
   dispatch_click 8 (idle_browser nav_page [DocumentClick, PaginationClick 5] []) =
     idle_browser nav_page [DocumentClick, PaginationClick 5] []"
proof -
  let ?b = "idle_browser nav_page [DocumentClick, PaginationClick 5] []"
  have l: "listeners ?b = [DocumentClick, PaginationClick 5]"
    by (simp add: idle_browser_def)
  have g7: "get_node (doc ?b) 7 = Some (mk_elem 7 ''span'' [] [] [])"
    and g8: "get_node (doc ?b) 8 = Some (mk_elem 8 ''span'' [] [] [])"
    by (simp_all add: idle_browser_def nav_page_def mk_elem_def get_node_def)
  have p7: "path_to 7 (doc ?b) = Some (the (path_to 7 (doc ?b)))"
    and p8: "path_to 8 (doc ?b) = Some (the (path_to 8 (doc ?b)))"
    by (simp_all add: idle_browser_def nav_page_def mk_elem_def)
  show ?thesis
    using pagination_click_dispatch [OF l g7 p7] pagination_click_dispatch [OF l g8 p8]
    by (simp add: idle_browser_def nav_page_def mk_elem_def getAttribute_def)
qed

theorem tab_clicks_not_coalesced_witness:
  "timers ((dispatch_click 1 ^^ 3) (idle_browser tabs_page [DocumentClick] [])) = [500, 500, 500]"
proof -
  let ?b = "idle_browser tabs_page [DocumentClick] []"
  let ?n = "mk_elem 1 ''button'' [(''data-testid'', ''mapToggleListMode''), (''aria-selected'', ''true'')] []
              [mk_elem 2 ''span'' [] [] []]"
  have l: "listeners ?b = [DocumentClick]"
    by (simp add: idle_browser_def)
  have g: "get_node (doc ?b) 1 = Some ?n"
    by (simp add: idle_browser_def tabs_page_def mk_elem_def get_node_def)
  have m: "is_map_toggle (label ?n)"
    by (simp add: mk_elem_def is_map_toggle_def attr_starts_with_def getAttribute_def)
  show ?thesis
    using tab_clicks_not_coalesced [OF l g m, of 3]
    by (simp add: idle_browser_def reapply_delay_def numeral_3_eq_3)
qed

theorem script_runs_stable_witness:
  "wf_dom (doc (idle_browser tabs_page [DocumentClick] [0])) \<and>
   script_step\<^sup>*\<^sup>* (idle_browser tabs_page [DocumentClick] [0])
     (reapplyFilters (idle_browser tabs_page [DocumentClick] [])) \<and>
   (doc (reapplyFilters (idle_browser tabs_page [DocumentClick] [])) = tabs_page \<or>
    doc (reapplyFilters (idle_browser tabs_page [DocumentClick] [])) =
      filter_spec (list_tab_selected tabs_page) tabs_page)"
proof -
  let ?b = "idle_browser tabs_page [DocumentClick] [0]"
  have wf: "wf_dom (doc ?b)"
    by (simp add: idle_browser_def wf_tabs_page)
  have "script_step ?b (reapplyFilters (?b\<lparr>timers := []\<rparr>))"
    by (rule script_step.fire) (simp_all add: idle_browser_def)
  then have run: "script_step\<^sup>*\<^sup>* ?b (reapplyFilters (idle_browser tabs_page [DocumentClick] []))"
    by (simp add: idle_browser_def)
  show ?thesis
    using wf run script_runs_stable [OF wf run] by (simp add: idle_browser_def)
qed

theorem script_never_unhides_witness:
  "card_hidden (elems (doc (reapplyFilters
     (idle_browser (map_elems (hide_if {4}) tabs_page) [DocumentClick] []))) ! 4)"
proof -
  let ?b = "idle_browser (map_elems (hide_if {4}) tabs_page) [DocumentClick] [0]"
  let ?b' = "reapplyFilters (idle_browser (map_elems (hide_if {4}) tabs_page) [DocumentClick] [])"
  have "script_step ?b (reapplyFilters (?b\<lparr>timers := []\<rparr>))"
    by (rule script_step.fire) (simp_all add: idle_browser_def)
  then have run: "script_step\<^sup>*\<^sup>* ?b ?b'"
    by (simp add: idle_browser_def)
  have len: "4 < length (elems (doc ?b))"
    by (simp add: idle_browser_def tabs_page_def mk_elem_def elems_def)
  have hid: "card_hidden (elems (doc ?b) ! 4)"
    by (simp add: idle_browser_def tabs_page_def mk_elem_def elems_def hide_if_def)
  from script_never_unhides [OF run] len hid show ?thesis
    by (auto dest: list_all2_nthD)
qed

theorem hideCards_spares_uncollected_witness:
  "elems (doc (hideCards scenario_state)) ! 8 =
     \<lparr>ident = 8, tag = ''div'', attrs = [], classList = [''listing-card''], display = None\<rparr>"
proof -
  have wf: "wf_dom (doc scenario_state)"
    by (simp add: scenario_state_def wf_scenario_page)
  have len: "8 < length (elems (doc scenario_state))"
    by (simp add: scenario_defs elems_def)
  have e8: "elems (doc scenario_state) ! 8 =
     \<lparr>ident = 8, tag = ''div'', attrs = [], classList = [''listing-card''], display = None\<rparr>"
    by (simp add: scenario_defs elems_def)
  have "\<not> has_class (content_class (list_mode_active scenario_state)) (elems (doc scenario_state) ! 8) \<and>
        \<not> has_class ''touchpoint-card'' (elems (doc scenario_state) ! 8)"
    by (simp add: scenario_list_active e8 content_class_def has_class_def)
  with list_all2_nthD [OF hideCards_spares_uncollected [OF wf] len] e8 show ?thesis
    by simp
qed

end
